(* ===== verification/JS_Prelude.thy ===== *)
theory JS_Prelude
  imports Main
begin

text \<open>
  Shared vocabulary of the development: the JavaScript values that occur in the
  sources of kids-tv-player, the result type of an evaluation that may throw, the
  theorem collection the component theories add to, and the list lemmas that
  more than one component needs.

  Only two kinds of value occur in \<^verbatim>\<open>src/src/data/defaultChannels.js\<close>: strings
  (the URLs and the empty placeholder) and \<^verbatim>\<open>undefined\<close> (what an array read
  outside the array yields, and what a freshly created array slot reads as).
  Numbers occur only as array indices and lengths; they are \<open>nat\<close> and \<open>int\<close>.
\<close>

section \<open>Theorem collection\<close>

named_theorems js_eval "equations that evaluate the modelled operations on closed terms"

section \<open>Values and completions\<close>

datatype jsval = Undefined | Str string

text \<open>
  The native errors the modelled code can throw: a \<^verbatim>\<open>RangeError\<close> from array
  creation, a \<^verbatim>\<open>ReferenceError\<close> for an identifier that is not bound (it names the
  identifier), a \<^verbatim>\<open>TypeError\<close> for a method call on a value that has no such method,
  and the \<^verbatim>\<open>SyntaxError\<close> of a module that binds a name twice.
\<close>

datatype js_error = RangeError | ReferenceError string | TypeError | SyntaxError string

type_synonym jsarray = "jsval list"

type_synonym 'a completion = "js_error + 'a"

text \<open>
  \<open>is_str\<close> is the test \<^verbatim>\<open>typeof v === "string"\<close>; \<open>all_str\<close> lifts it to an array.
  Both are executable.
\<close>

fun is_str :: "jsval \<Rightarrow> bool" where
  "is_str (Str s) = True"
| "is_str Undefined = False"

definition all_str :: "jsarray \<Rightarrow> bool" where
  "all_str xs = list_all is_str xs"

lemma is_str_neq_Undefined [simp]: "is_str v \<Longrightarrow> v \<noteq> Undefined"
  by (cases v) simp_all

lemma all_str_map_Str [simp]: "all_str (map Str ss)"
  by (simp add: all_str_def list_all_iff)

lemma all_str_nth: "all_str xs \<Longrightarrow> i < length xs \<Longrightarrow> is_str (xs ! i)"
  by (simp add: all_str_def list_all_length)

lemma all_str_map_upt: "(\<And>k. is_str (f k)) \<Longrightarrow> all_str (map f [0..<n])"
  by (simp add: all_str_def list_all_iff)

text \<open>
  The abstraction from arrays of values to lists of strings: \<open>strings_of xs\<close> is the
  list of strings an array holds, and \<open>None\<close> when some entry is not a string.
\<close>

fun str_of :: "jsval \<Rightarrow> string option" where
  "str_of (Str s) = Some s"
| "str_of Undefined = None"

definition strings_of :: "jsarray \<Rightarrow> string list option" where
  "strings_of xs = those (map str_of xs)"

lemma strings_of_map_Str [simp]: "strings_of (map Str ss) = Some ss"
  by (induction ss) (simp_all add: strings_of_def)

section \<open>Lists built from their index\<close>

text \<open>
  The arrays of the sources are built slot by slot from a function of the index.
  These lemmas relate that construction to \<open>take\<close>, \<open>replicate\<close> and \<open>list_update\<close>.
\<close>

lemma take_Suc_list_update:
  "k < length A \<Longrightarrow> take (Suc k) (A[k := v]) = take k A @ [v]"
  by (simp add: take_Suc_conv_app_nth)

lemma map_upt_guarded_nth:
  "map (\<lambda>i. if i < length xs then g (xs ! i) else d) [0..<n]
     = map g (take n xs) @ replicate (n - length xs) d"
  by (rule nth_equalityI) (auto simp: nth_append)

end
