(* ===== verification/JS_Array.thy ===== *)
theory JS_Array
  imports JS_Prelude "HOL-Library.Word"
begin

text \<open>
  The array operations that \<^verbatim>\<open>src/src/data/defaultChannels.js\<close> calls, with the
  meaning ECMA-262 gives them on the arguments the source passes. Except for the read
  \<^verbatim>\<open>xs[i]\<close> and the object literal, which stand in the source, these are operations
  of the JavaScript engine: no line under \<^verbatim>\<open>src/\<close> implements them, the source only
  calls \<^verbatim>\<open>Array.from\<close> (line 7), and the definitions are transcribed from the
  standard, not translated from the repository.
  \<^item> the object literal \<^verbatim>\<open>{ length: 10 }\<close> is an array-like object (\<open>arraylike\<close>):
    a \<^verbatim>\<open>length\<close> property and no indexed property;
  \<^item> \<^verbatim>\<open>Array.from(items, mapfn)\<close> on an object without an iterator (\<open>Array_from\<close>):
    the length is clamped by \<open>ToLength\<close>, an array of that length is created
    (\<open>ArrayCreate\<close>: the array constructor converts the length to an unsigned 32-bit
    integer, \<open>ToUint32\<close>, and throws a \<^verbatim>\<open>RangeError\<close> when the conversion changes
    it, that is beyond \<open>2\<^sup>3\<^sup>2 - 1\<close>), a counting loop
    (\<open>from_loop\<close>) stores \<^verbatim>\<open>mapfn(items[k], k)\<close> in slot \<open>k\<close>, and at the end the
    length of the array is assigned (\<open>ArraySetLength\<close>);
  \<^item> the read \<^verbatim>\<open>xs[i]\<close> of an array (\<open>js_index\<close>) yields \<^verbatim>\<open>undefined\<close> outside
    the array instead of failing;
  \<^item> the store \<^verbatim>\<open>xs[i] = v\<close> into an array (\<open>js_store\<close>), by which the loop fills
    its slots, extends the array when the index is outside it.

  Two tests of \<^verbatim>\<open>Array.from\<close> are decided by the text of the call and are not
  modelled: the callback is an arrow function, which is callable, and the object
  literal has no iterator, so that the array-like branch is the one taken.

  The lemmas give the loop its invariant, prove it equal to a \<open>map\<close> over the
  indices, show that none of its stores extends the array and that the final
  assignment to the length changes nothing, and characterise the error and the
  clamping.
\<close>

section \<open>Array-like objects and array reads\<close>

record arraylike =
  length_prop :: int
  elems :: "nat \<Rightarrow> jsval option"

definition Get :: "arraylike \<Rightarrow> nat \<Rightarrow> jsval" where
  "Get items k = (case elems items k of None \<Rightarrow> Undefined | Some v \<Rightarrow> v)"

definition js_index :: "jsarray \<Rightarrow> nat \<Rightarrow> jsval" where
  "js_index xs i = (if i < length xs then xs ! i else Undefined)"

section \<open>Lengths\<close>

text \<open>
  \<open>max_safe_integer\<close> is \<open>2\<^sup>5\<^sup>3 - 1\<close> and \<open>max_array_length\<close> is \<open>2\<^sup>3\<^sup>2 - 1\<close>; they are
  written as numerals so that closed instances evaluate by rewriting.
\<close>

definition max_safe_integer :: int where
  "max_safe_integer = 9007199254740991"

definition max_array_length :: nat where
  "max_array_length = 4294967295"

definition ToLength :: "int \<Rightarrow> nat" where
  "ToLength n = (if n \<le> 0 then 0 else nat (min n max_safe_integer))"

definition ToUint32 :: "nat \<Rightarrow> 32 word" where
  "ToUint32 n = of_nat n"

definition ArrayCreate :: "nat \<Rightarrow> jsarray completion" where
  "ArrayCreate len =
     (if unat (ToUint32 len) \<noteq> len then Inl RangeError
      else Inr (replicate len Undefined))"

text \<open>
  The store \<^verbatim>\<open>xs[i] = v\<close> into an array. Inside the array it replaces the entry; at
  or beyond the length it extends the array, and the slots in between read
  \<^verbatim>\<open>undefined\<close>; an index of \<open>2\<^sup>3\<^sup>2 - 1\<close> or more is not an array index and leaves the
  entries as they are.
\<close>

definition js_store :: "jsarray \<Rightarrow> nat \<Rightarrow> jsval \<Rightarrow> jsarray" where
  "js_store xs i v =
     (if i < length xs then xs[i := v]
      else if i < max_array_length then xs @ replicate (i - length xs) Undefined @ [v]
      else xs)"

text \<open>
  The assignment \<^verbatim>\<open>xs.length = len\<close>. Like the array constructor it refuses a length
  that its 32-bit conversion changes; a smaller length cuts the array, a greater one
  extends it with slots that read \<^verbatim>\<open>undefined\<close>.
\<close>

definition ArraySetLength :: "jsarray \<Rightarrow> nat \<Rightarrow> jsarray completion" where
  "ArraySetLength xs len =
     (if unat (ToUint32 len) \<noteq> len then Inl RangeError
      else Inr (take len xs @ replicate (len - length xs) Undefined))"

section \<open>Array.from on an array-like object\<close>

function from_loop ::
  "arraylike \<Rightarrow> (jsval \<Rightarrow> nat \<Rightarrow> jsval) \<Rightarrow> nat \<Rightarrow> nat \<Rightarrow> jsarray \<Rightarrow> jsarray" where
  "from_loop items mapfn len k A =
     (if k < len
      then from_loop items mapfn len (Suc k) (js_store A k (mapfn (Get items k) k))
      else A)"
  by pat_completeness auto
termination
  by (relation "measure (\<lambda>(items, mapfn, len, k, A). len - k)") auto

declare from_loop.simps [simp del]

definition Array_from :: "arraylike \<Rightarrow> (jsval \<Rightarrow> nat \<Rightarrow> jsval) \<Rightarrow> jsarray completion" where
  "Array_from items mapfn =
     (let len = ToLength (length_prop items) in
      case ArrayCreate len of
        Inl e \<Rightarrow> Inl e
      | Inr A \<Rightarrow> ArraySetLength (from_loop items mapfn len 0 A) len)"

text \<open>
  The reference the loop is compared with: the list of \<open>mapfn (Get items k) k\<close>
  for \<open>k\<close> from \<open>0\<close> to \<open>len - 1\<close>.
\<close>

definition from_spec :: "arraylike \<Rightarrow> (jsval \<Rightarrow> nat \<Rightarrow> jsval) \<Rightarrow> nat \<Rightarrow> jsarray" where
  "from_spec items mapfn len = map (\<lambda>k. mapfn (Get items k) k) [0..<len]"

text \<open>
  The same loop as a transition system on its states (the index and the array): it
  starts at index 0 on the fresh array, and a step is possible while the index is below
  the length. \<open>from_inv\<close> is the invariant of its states: the slots below the index
  hold their final values and the slots from the index on are still empty.
\<close>

inductive from_reach ::
  "arraylike \<Rightarrow> (jsval \<Rightarrow> nat \<Rightarrow> jsval) \<Rightarrow> nat \<Rightarrow> nat \<times> jsarray \<Rightarrow> bool"
  for items mapfn len where
  start: "from_reach items mapfn len (0, replicate len Undefined)"
| store: "from_reach items mapfn len (k, A) \<Longrightarrow> k < len \<Longrightarrow>
          from_reach items mapfn len (Suc k, js_store A k (mapfn (Get items k) k))"

definition from_inv ::
  "arraylike \<Rightarrow> (jsval \<Rightarrow> nat \<Rightarrow> jsval) \<Rightarrow> nat \<Rightarrow> nat \<times> jsarray \<Rightarrow> bool" where
  "from_inv items mapfn len s \<longleftrightarrow>
     fst s \<le> len \<and> length (snd s) = len \<and>
     take (fst s) (snd s) = from_spec items mapfn (fst s) \<and>
     drop (fst s) (snd s) = replicate (len - fst s) Undefined"

section \<open>Reads and lengths\<close>

lemma Get_length_only [simp]: "Get \<lparr>length_prop = n, elems = Map.empty\<rparr> k = Undefined"
  by (simp add: Get_def)

lemma js_index_in [simp]: "i < length xs \<Longrightarrow> js_index xs i = xs ! i"
  by (simp add: js_index_def)

lemma js_index_out [simp]: "length xs \<le> i \<Longrightarrow> js_index xs i = Undefined"
  by (simp add: js_index_def)

lemma js_store_in [simp]: "i < length xs \<Longrightarrow> js_store xs i v = xs[i := v]"
  by (simp add: js_store_def)

lemma max_array_length_eq: "max_array_length = 2 ^ 32 - 1"
  by (simp add: max_array_length_def)

lemma max_safe_integer_eq: "max_safe_integer = 2 ^ 53 - 1"
  by (simp add: max_safe_integer_def)

lemma unat_ToUint32: "unat (ToUint32 n) = n mod 2 ^ 32"
  by (simp add: ToUint32_def unat_of_nat)

lemma ToUint32_exact_iff: "unat (ToUint32 len) = len \<longleftrightarrow> len \<le> max_array_length"
proof -
  have "len mod 4294967296 = len \<longleftrightarrow> len < 4294967296"
    by (metis mod_less mod_less_divisor zero_less_numeral)
  moreover have "len < 4294967296 \<longleftrightarrow> len \<le> 4294967295" by arith
  ultimately show ?thesis by (simp add: unat_ToUint32 max_array_length_def)
qed

lemma ArrayCreate_cases:
  "ArrayCreate len =
     (if max_array_length < len then Inl RangeError else Inr (replicate len Undefined))"
  by (simp add: ArrayCreate_def ToUint32_exact_iff not_le)

text \<open>
  Assigning to an array the length it has changes nothing.
\<close>

lemma ArraySetLength_same:
  "length xs = len \<Longrightarrow> len \<le> max_array_length \<Longrightarrow> ArraySetLength xs len = Inr xs"
  by (simp add: ArraySetLength_def ToUint32_exact_iff)

lemma ToLength_nonpos [simp]: "n \<le> 0 \<Longrightarrow> ToLength n = 0"
  by (simp add: ToLength_def)

lemma ToLength_eq_0_iff: "ToLength n = 0 \<longleftrightarrow> n \<le> 0"
  by (auto simp: ToLength_def max_safe_integer_def)

lemma ToLength_eq_nat: "n \<le> max_safe_integer \<Longrightarrow> ToLength n = nat n"
  by (simp add: ToLength_def)

lemma ToLength_clamped: "max_safe_integer \<le> n \<Longrightarrow> ToLength n = nat max_safe_integer"
  by (simp add: ToLength_def max_safe_integer_def)

lemma ToLength_le: "int (ToLength n) \<le> max_safe_integer"
  by (auto simp: ToLength_def max_safe_integer_def)

section \<open>The loop\<close>

lemma from_loop_step:
  "k < len \<Longrightarrow>
   from_loop items mapfn len k A =
     from_loop items mapfn len (Suc k) (js_store A k (mapfn (Get items k) k))"
  by (simp add: from_loop.simps [of items mapfn len k A])

lemma from_loop_done: "len \<le> k \<Longrightarrow> from_loop items mapfn len k A = A"
  by (simp add: from_loop.simps [of items mapfn len k A])

lemma length_from_loop [simp]:
  "len \<le> length A \<Longrightarrow> length (from_loop items mapfn len k A) = length A"
proof (induction items mapfn len k A rule: from_loop.induct)
  case (1 items mapfn len k A)
  show ?case
  proof (cases "k < len")
    case True
    with "1.prems" have "k < length A" by simp
    with True "1.IH" "1.prems" show ?thesis
      by (simp add: from_loop.simps [of items mapfn len k A])
  next
    case False
    then show ?thesis by (simp add: from_loop.simps [of items mapfn len k A])
  qed
qed

text \<open>
  The invariant of the loop: when it is entered at \<open>k\<close> with an array of length
  \<open>len\<close>, the slots below \<open>k\<close> are kept and every slot from \<open>k\<close> on receives the
  value of the callback at its index.
\<close>

lemma from_loop_inv:
  "k \<le> len \<Longrightarrow> length A = len \<Longrightarrow>
   from_loop items mapfn len k A =
     take k A @ map (\<lambda>i. mapfn (Get items i) i) [k..<len]"
proof (induction items mapfn len k A rule: from_loop.induct)
  case (1 items mapfn len k A)
  show ?case
  proof (cases "k < len")
    case True
    let ?A = "js_store A k (mapfn (Get items k) k)"
    from True "1.prems" have "from_loop items mapfn len (Suc k) ?A =
        take (Suc k) ?A @ map (\<lambda>i. mapfn (Get items i) i) [Suc k..<len]"
      by (intro "1.IH") simp_all
    with True "1.prems" show ?thesis
      by (simp add: from_loop.simps [of items mapfn len k A] take_Suc_list_update
          upt_conv_Cons)
  next
    case False
    then have "from_loop items mapfn len k A = A" by (simp add: from_loop_done)
    with False "1.prems" show ?thesis by simp
  qed
qed

lemma from_loop_eq_spec:
  "length A = len \<Longrightarrow> from_loop items mapfn len 0 A = from_spec items mapfn len"
  by (simp add: from_loop_inv from_spec_def)

lemma length_from_spec [simp]: "length (from_spec items mapfn len) = len"
  by (simp add: from_spec_def)

lemma nth_from_spec [simp]:
  "k < len \<Longrightarrow> from_spec items mapfn len ! k = mapfn (Get items k) k"
  by (simp add: from_spec_def)

lemma all_str_from_spec:
  "(\<And>v k. is_str (mapfn v k)) \<Longrightarrow> all_str (from_spec items mapfn len)"
  by (simp add: from_spec_def all_str_map_upt)

section \<open>The loop as a transition system\<close>

text \<open>
  Reachability by the index of the state: the state at index 0 is the start state, and a
  state at a successor index comes from a state at the index before it by one store.
  With these equations a closed state is decided by rewriting.
\<close>

inductive_simps from_reach_0_iff: "from_reach items mapfn len (0, A)"

inductive_simps from_reach_Suc_iff: "from_reach items mapfn len (Suc k, A)"

lemma from_inv_start: "from_inv items mapfn len (0, replicate len Undefined)"
  by (simp add: from_inv_def from_spec_def)

lemma from_inv_store:
  assumes "from_inv items mapfn len (k, A)" and "k < len"
  shows "from_inv items mapfn len (Suc k, js_store A k (mapfn (Get items k) k))"
proof -
  let ?A = "js_store A k (mapfn (Get items k) k)"
  from assms(1) have len: "length A = len" and tk: "take k A = from_spec items mapfn k"
    and dr: "drop k A = replicate (len - k) Undefined"
    by (simp_all add: from_inv_def)
  from len assms(2) have "take (Suc k) ?A = from_spec items mapfn (Suc k)"
    by (simp add: take_Suc_list_update tk from_spec_def)
  moreover from len assms(2) have "drop (Suc k) ?A = drop (Suc k) A"
    by (simp add: drop_update_cancel)
  then have "drop (Suc k) ?A = tl (drop k A)"
    by (simp add: drop_Suc tl_drop)
  with dr have "drop (Suc k) ?A = replicate (len - Suc k) Undefined"
    by simp
  ultimately show ?thesis using len assms(2) by (simp add: from_inv_def)
qed

lemma from_reach_inv: "from_reach items mapfn len s \<Longrightarrow> from_inv items mapfn len s"
  by (induction rule: from_reach.induct) (simp_all add: from_inv_start from_inv_store)

lemma from_reach_exit:
  "from_reach items mapfn len (k, A) \<Longrightarrow>
   from_reach items mapfn len (len, from_loop items mapfn len k A)"
proof (induction items mapfn len k A rule: from_loop.induct)
  case (1 items mapfn len k A)
  show ?case
  proof (cases "k < len")
    case True
    with "1.prems" have "from_reach items mapfn len (Suc k, js_store A k (mapfn (Get items k) k))"
      by (rule from_reach.store)
    with True "1.IH" show ?thesis by (simp add: from_loop_step)
  next
    case False
    from "1.prems" have "k \<le> len" by (auto dest: from_reach_inv simp: from_inv_def)
    with False have "k = len" by simp
    with "1.prems" show ?thesis by (simp add: from_loop_done)
  qed
qed

text \<open>
  The transition system and the recursive function are the same loop: the states of
  the transition system are states the function passes through, since from each of
  them the function returns what it returns from the start state.
\<close>

lemma from_reach_from_loop:
  "from_reach items mapfn len (k, A) \<Longrightarrow>
   from_loop items mapfn len k A = from_loop items mapfn len 0 (replicate len Undefined)"
proof (induction "(k, A)" arbitrary: k A rule: from_reach.induct)
  case start
  show ?case by simp
next
  case (store k A)
  from store(2,3) show ?case by (simp add: from_loop_step [symmetric])
qed

text \<open>
  The states of the loop, exactly: at index \<open>k\<close> the array holds the results of the
  callback below \<open>k\<close> and is empty from \<open>k\<close> on.
\<close>

lemma from_reach_index:
  "k \<le> len \<Longrightarrow>
   from_reach items mapfn len (k, from_spec items mapfn k @ replicate (len - k) Undefined)"
proof (induction k)
  case 0
  show ?case using from_reach.start [of items mapfn len] by (simp add: from_spec_def)
next
  case (Suc k)
  let ?A = "from_spec items mapfn k @ replicate (len - k) Undefined"
  from Suc have r: "from_reach items mapfn len (k, ?A)" and k: "k < len" by simp_all
  from k have "len - k = Suc (len - Suc k)" by simp
  then have "js_store ?A k (mapfn (Get items k) k) =
      from_spec items mapfn (Suc k) @ replicate (len - Suc k) Undefined"
    by (simp add: list_update_append from_spec_def)
  with from_reach.store [OF r k] show ?case by simp
qed

text \<open>
  C23. The reachable states of the loop are exactly the states in which the index is
  at most the length, the slots below the index hold the results of the callback for
  their indices, and the slots from the index on are empty. In particular the array
  at an index is unique.
\<close>

theorem from_reach_iff:
  "from_reach items mapfn len (k, A) \<longleftrightarrow>
     k \<le> len \<and> A = from_spec items mapfn k @ replicate (len - k) Undefined"
proof
  assume "from_reach items mapfn len (k, A)"
  then have "from_inv items mapfn len (k, A)" by (rule from_reach_inv)
  then have "k \<le> len" and "take k A @ drop k A =
      from_spec items mapfn k @ replicate (len - k) Undefined"
    by (simp_all add: from_inv_def)
  then show "k \<le> len \<and> A = from_spec items mapfn k @ replicate (len - k) Undefined"
    by simp
next
  assume "k \<le> len \<and> A = from_spec items mapfn k @ replicate (len - k) Undefined"
  then show "from_reach items mapfn len (k, A)" by (simp add: from_reach_index)
qed

text \<open>
  C8. Every store of the loop is inside the array and into a slot that is still
  empty: in a reachable state whose index is below the length, the index is below the
  length of the array and the slot at the index reads \<^verbatim>\<open>undefined\<close>. So a store never
  extends the array, and no slot is written twice.
\<close>

theorem from_reach_store_in_range:
  assumes "from_reach items mapfn len (k, A)" and "k < len"
  shows "k < length A \<and> A ! k = Undefined"
proof -
  from assms(1) have "from_inv items mapfn len (k, A)" by (rule from_reach_inv)
  then have len: "length A = len" and dr: "drop k A = replicate (len - k) Undefined"
    by (simp_all add: from_inv_def)
  from len assms(2) have "A ! k = hd (drop k A)" by (simp add: hd_drop_conv_nth)
  with dr assms(2) len show ?thesis by (simp add: hd_replicate)
qed

theorem from_reach_store_in_range_witness:
  "from_reach \<lparr>length_prop = 2, elems = Map.empty\<rparr> (\<lambda>v k. Str ''a'') 2
     (1, [Str ''a'', Undefined]) \<and>
   (1::nat) < length [Str ''a'', Undefined] \<and> [Str ''a'', Undefined] ! 1 = Undefined"
proof -
  have r: "from_reach \<lparr>length_prop = 2, elems = Map.empty\<rparr> (\<lambda>v k. Str ''a'') 2
      (1, [Str ''a'', Undefined])"
    by (simp add: from_reach_Suc_iff from_reach_0_iff numeral_2_eq_2)
  from from_reach_store_in_range [OF r] r show ?thesis by simp
qed

section \<open>Array.from as a whole\<close>

lemma ToLength_gt_max_array_length_iff:
  "max_array_length < ToLength n \<longleftrightarrow> 4294967295 < n"
  by (auto simp: ToLength_def max_array_length_def max_safe_integer_def)

lemma Array_from_cases:
  "Array_from items mapfn =
     (if max_array_length < ToLength (length_prop items) then Inl RangeError
      else Inr (from_spec items mapfn (ToLength (length_prop items))))"
  by (simp add: Array_from_def ArrayCreate_cases Let_def from_loop_eq_spec
      ArraySetLength_same not_less)

lemma Array_from_Inr_iff:
  "Array_from items mapfn = Inr A \<longleftrightarrow>
     length_prop items \<le> 4294967295 \<and>
     A = from_spec items mapfn (ToLength (length_prop items))"
  by (auto simp: Array_from_cases ToLength_gt_max_array_length_iff)

lemma Array_from_Inl_iff:
  "Array_from items mapfn = Inl e \<longleftrightarrow> e = RangeError \<and> 4294967295 < length_prop items"
  by (auto simp: Array_from_cases ToLength_gt_max_array_length_iff)

text \<open>
  Closed instances of \<open>Array_from\<close> evaluate with \<open>js_eval\<close>: the case distinction
  on the length, the reference list, and the numerals of the bounds.
\<close>

lemmas [js_eval] = Array_from_cases from_spec_def ToLength_def
  max_safe_integer_def max_array_length_def

text \<open>
  C5. The counting loop of \<^verbatim>\<open>Array.from\<close> overwrites every slot of the array it is
  given: started at index 0 on any array of the target length, it returns exactly the
  list of callback results for the indices \<open>0, \<dots>, len - 1\<close>, whatever the array held.
\<close>

theorem from_loop_fills_every_slot:
  "length A = len \<Longrightarrow>
   from_loop items mapfn len 0 A = map (\<lambda>k. mapfn (Get items k) k) [0..<len]"
  by (simp add: from_loop_inv)

theorem from_loop_fills_every_slot_witness:
  "from_loop \<lparr>length_prop = 2, elems = Map.empty\<rparr> (\<lambda>v k. if k = 0 then Str ''a'' else v) 2 0
     [Str ''x'', Str ''y''] = [Str ''a'', Undefined]"
  using from_loop_fills_every_slot [of "[Str ''x'', Str ''y'']" 2
      "\<lparr>length_prop = 2, elems = Map.empty\<rparr>" "\<lambda>v k. if k = 0 then Str ''a'' else v"]
  by (simp add: upt_rec)

text \<open>
  C6. \<^verbatim>\<open>Array.from\<close> throws exactly when the \<^verbatim>\<open>length\<close> property exceeds the largest
  array length \<open>2\<^sup>3\<^sup>2 - 1\<close>, and what it throws is a \<^verbatim>\<open>RangeError\<close>: the 32-bit
  conversion of the array constructor changes exactly the lengths beyond that bound.
\<close>

theorem Array_from_RangeError_iff:
  "Array_from items mapfn = Inl e \<longleftrightarrow> e = RangeError \<and> 2 ^ 32 - 1 < length_prop items"
  by (simp add: Array_from_Inl_iff)

text \<open>
  C12. On an object that has only a \<^verbatim>\<open>length\<close> property within the array range, as
  \<^verbatim>\<open>{ length: 10 }\<close> is, \<^verbatim>\<open>Array.from\<close> returns the callback's results at
  \<^verbatim>\<open>(undefined, 0)\<close>, \<^verbatim>\<open>(undefined, 1)\<close>, and so on up to the length.
\<close>

theorem Array_from_length_only:
  "0 \<le> n \<Longrightarrow> n \<le> 2 ^ 32 - 1 \<Longrightarrow>
   Array_from \<lparr>length_prop = n, elems = Map.empty\<rparr> mapfn =
     Inr (map (mapfn Undefined) [0..<nat n])"
  by (simp add: Array_from_Inr_iff from_spec_def ToLength_eq_nat max_safe_integer_def)

theorem Array_from_length_only_witness:
  "Array_from \<lparr>length_prop = 3, elems = Map.empty\<rparr> (\<lambda>v k. if k < 2 then Str ''a'' else v) =
     Inr [Str ''a'', Str ''a'', Undefined]"
  using Array_from_length_only [of 3 "\<lambda>v k. if k < 2 then Str ''a'' else v"]
  by (simp add: upt_rec)

text \<open>
  C13. An array returned by \<^verbatim>\<open>Array.from\<close> has at most \<open>2\<^sup>3\<^sup>2 - 1\<close> entries, and
  exactly as many as the \<^verbatim>\<open>length\<close> property says, a negative length counting as 0.
\<close>

theorem Array_from_length_bounds:
  "Array_from items mapfn = Inr A \<Longrightarrow>
   length A \<le> 2 ^ 32 - 1 \<and> int (length A) = max 0 (length_prop items)"
  by (auto simp: Array_from_Inr_iff ToLength_eq_nat max_safe_integer_def)

theorem Array_from_length_bounds_witness:
  "Array_from \<lparr>length_prop = - 5, elems = Map.empty\<rparr> (\<lambda>v k. Str ''a'') = Inr [] \<and>
   length ([] :: jsarray) \<le> 2 ^ 32 - 1 \<and> int (length ([] :: jsarray)) = max 0 (- 5)"
proof -
  have A: "Array_from \<lparr>length_prop = - 5, elems = Map.empty\<rparr> (\<lambda>v k. Str ''a'') = Inr []"
    by (simp add: js_eval)
  from Array_from_length_bounds [OF A] A show ?thesis by simp
qed

end
