(* ===== verification/Default_Channels.thy ===== *)
theory Default_Channels
  imports JS_Array
begin

text \<open>
  The module \<^verbatim>\<open>src/src/data/defaultChannels.js\<close>.

  \<^item> \<open>sampleVideos\<close> is the module's private array of three sample URLs.
  \<^item> \<open>channelUrlAt\<close> is the arrow function \<^verbatim>\<open>(_, index) => { ... }\<close> handed to
    \<^verbatim>\<open>Array.from\<close>; the array it closes over is its first argument.
  \<^item> \<open>defaultChannelUrls\<close> is the exported constant, a completion: the array, or the
    error that evaluating the module would throw.
  \<^item> \<open>channelUrls\<close> is the same expression with the seed array and the literal
    \<^verbatim>\<open>10\<close> as parameters, so that the boundary cases of the contract can be stated.

  The contract is \<open>channel_list\<close> (the seeds, cut or padded with empty strings to the
  requested length) and the data invariant \<open>ChannelList_inv\<close>; \<open>channels_of\<close> is the
  abstraction from the completion to the list of strings a consumer sees.
\<close>

section \<open>The module\<close>

definition sampleVideos :: jsarray where
  "sampleVideos =
     [Str ''https://commondatastorage.googleapis.com/gtv-videos-bucket/sample/BigBuckBunny.mp4'',
      Str ''https://commondatastorage.googleapis.com/gtv-videos-bucket/sample/ElephantsDream.mp4'',
      Str ''https://commondatastorage.googleapis.com/gtv-videos-bucket/sample/Sintel.mp4'']"

definition channelUrlAt :: "jsarray \<Rightarrow> jsval \<Rightarrow> nat \<Rightarrow> jsval" where
  "channelUrlAt seeds u index =
     (if index < length seeds then js_index seeds index else Str '''')"

definition defaultChannelUrls :: "jsarray completion" where
  "defaultChannelUrls =
     Array_from \<lparr>length_prop = 10, elems = Map.empty\<rparr> (channelUrlAt sampleVideos)"

definition channelUrls :: "jsarray \<Rightarrow> int \<Rightarrow> jsarray completion" where
  "channelUrls seeds totalChannels =
     Array_from \<lparr>length_prop = totalChannels, elems = Map.empty\<rparr> (channelUrlAt seeds)"

section \<open>The contract\<close>

definition channel_list :: "string list \<Rightarrow> nat \<Rightarrow> string list" where
  "channel_list seeds n = take n seeds @ replicate (n - length seeds) ''''"

definition ChannelList_inv :: "nat \<Rightarrow> nat \<Rightarrow> string list \<Rightarrow> bool" where
  "ChannelList_inv n k cl \<longleftrightarrow>
     length cl = n \<and>
     list_all (\<lambda>u. u \<noteq> '''') (take k cl) \<and>
     list_all (\<lambda>u. u = '''') (drop k cl)"

definition channels_of :: "jsarray completion \<Rightarrow> string list option" where
  "channels_of r = (case r of Inl e \<Rightarrow> None | Inr xs \<Rightarrow> strings_of xs)"

section \<open>The callback\<close>

lemma channelUrlAt_eq_nth:
  "channelUrlAt seeds u index = (if index < length seeds then seeds ! index else Str '''')"
  by (simp add: channelUrlAt_def)

lemma channelUrlAt_is_str: "all_str seeds \<Longrightarrow> is_str (channelUrlAt seeds u index)"
  by (simp add: channelUrlAt_eq_nth all_str_nth)

lemma from_spec_channelUrlAt:
  "from_spec items (channelUrlAt seeds) n =
     take n seeds @ replicate (n - length seeds) (Str '''')"
  using map_upt_guarded_nth [of seeds "\<lambda>x. x" "Str ''''" n]
  by (simp add: from_spec_def channelUrlAt_eq_nth)

section \<open>The generator\<close>

lemma defaultChannelUrls_eq: "defaultChannelUrls = channelUrls sampleVideos 10"
  by (simp add: defaultChannelUrls_def channelUrls_def)

lemma sampleVideos_all_str: "all_str sampleVideos"
  by (simp add: sampleVideos_def all_str_def)

lemma channelUrls_cases:
  "channelUrls seeds totalChannels =
     (if 4294967295 < totalChannels then Inl RangeError
      else Inr (take (nat totalChannels) seeds @
                replicate (nat totalChannels - length seeds) (Str '''')))"
  by (simp add: channelUrls_def Array_from_cases ToLength_gt_max_array_length_iff
      from_spec_channelUrlAt ToLength_eq_nat max_safe_integer_def)

lemma channelUrls_map_Str:
  "totalChannels \<le> 4294967295 \<Longrightarrow>
   channelUrls (map Str seeds) totalChannels =
     Inr (map Str (channel_list seeds (nat totalChannels)))"
  by (simp add: channelUrls_cases channel_list_def take_map)

lemma channelUrls_returns:
  "totalChannels \<le> 4294967295 \<Longrightarrow> \<exists>A. channelUrls seeds totalChannels = Inr A"
  by (simp add: channelUrls_cases)

section \<open>The contract's own properties\<close>

lemma length_channel_list [simp]: "length (channel_list seeds n) = n"
  by (simp add: channel_list_def)

lemma ChannelList_inv_channel_list:
  "list_all (\<lambda>u. u \<noteq> '''') seeds \<Longrightarrow>
   ChannelList_inv n (length seeds) (channel_list seeds n)"
  by (auto simp: ChannelList_inv_def channel_list_def list_all_iff dest: in_set_takeD)

lemma filter_channel_list:
  assumes "list_all (\<lambda>u. u \<noteq> '''') seeds"
  shows "filter (\<lambda>u. u \<noteq> '''') (channel_list seeds n) = take n seeds"
proof -
  from assms have "filter (\<lambda>u. u \<noteq> '''') (take n seeds) = take n seeds"
    by (auto simp: list_all_iff filter_id_conv dest: in_set_takeD)
  then show ?thesis by (simp add: channel_list_def)
qed

lemma length_filter_channel_list:
  "list_all (\<lambda>u. u \<noteq> '''') seeds \<Longrightarrow>
   length (filter (\<lambda>u. u \<noteq> '''') (channel_list seeds n)) = min (length seeds) n"
  by (simp add: filter_channel_list)

section \<open>The exported value\<close>

lemma upt_0_10 [js_eval]: "[0..<10] = [0, 1, 2, 3, 4, 5, 6, 7, 8, 9]"
  by (simp add: upt_rec)

text \<open>
  C1. Evaluating the module does not throw, and the exported list is the three sample
  URLs (Big Buck Bunny, Elephants Dream, Sintel, in this order) followed by seven empty
  strings: ten entries in all.
\<close>

theorem defaultChannelUrls_value:
  "defaultChannelUrls =
     Inr [Str ''https://commondatastorage.googleapis.com/gtv-videos-bucket/sample/BigBuckBunny.mp4'',
          Str ''https://commondatastorage.googleapis.com/gtv-videos-bucket/sample/ElephantsDream.mp4'',
          Str ''https://commondatastorage.googleapis.com/gtv-videos-bucket/sample/Sintel.mp4'',
          Str '''', Str '''', Str '''', Str '''', Str '''', Str '''', Str '''']"
  by (simp add: defaultChannelUrls_def channelUrlAt_def sampleVideos_def js_eval)

section \<open>Refinement of the contract\<close>

text \<open>
  C2. For every list of seed strings and every requested length, the generator
  implements the contract: seen as a list of strings, its result is the seeds cut or
  padded with empty strings to that length (a negative length counting as 0), and it
  has no result exactly when the length exceeds \<open>2\<^sup>3\<^sup>2 - 1\<close>.
\<close>

theorem channelUrls_refines_channel_list:
  "channels_of (channelUrls (map Str seeds) totalChannels) =
     (if 2 ^ 32 - 1 < totalChannels then None
      else Some (channel_list seeds (nat totalChannels)))"
proof (cases "4294967295 < totalChannels")
  case True
  then show ?thesis by (simp add: channels_of_def channelUrls_cases)
next
  case False
  then have "channelUrls (map Str seeds) totalChannels =
      Inr (map Str (channel_list seeds (nat totalChannels)))"
    by (simp add: channelUrls_map_Str)
  with False show ?thesis by (simp add: channels_of_def)
qed

text \<open>
  C3. The generated list satisfies the ChannelList invariant: when no seed is the
  empty string, the list has the requested length, its first \<open>k\<close> entries (\<open>k\<close> the
  number of seeds) are non-empty and every entry from index \<open>k\<close> on is empty.
\<close>

theorem channelUrls_ChannelList_inv:
  assumes "list_all (\<lambda>u. u \<noteq> '''') seeds" and "totalChannels \<le> 2 ^ 32 - 1"
  shows "\<exists>cl. channels_of (channelUrls (map Str seeds) totalChannels) = Some cl \<and>
              ChannelList_inv (nat totalChannels) (length seeds) cl"
  using assms by (simp add: channelUrls_map_Str channels_of_def ChannelList_inv_channel_list)

theorem channelUrls_ChannelList_inv_witness:
  "\<exists>cl. channels_of defaultChannelUrls = Some cl \<and> ChannelList_inv 10 3 cl"
  using channelUrls_ChannelList_inv
    [of "[''https://commondatastorage.googleapis.com/gtv-videos-bucket/sample/BigBuckBunny.mp4'',
      ''https://commondatastorage.googleapis.com/gtv-videos-bucket/sample/ElephantsDream.mp4'',
      ''https://commondatastorage.googleapis.com/gtv-videos-bucket/sample/Sintel.mp4'']" 10]
  by (simp add: defaultChannelUrls_eq sampleVideos_def numeral_3_eq_3)

text \<open>
  C4. No entry of a generated array is \<^verbatim>\<open>undefined\<close>: when every seed is a string,
  every entry of the result is a string. The guard \<^verbatim>\<open>index < sampleVideos.length\<close>
  keeps the read \<^verbatim>\<open>sampleVideos[index]\<close> inside the seed array.
\<close>

theorem channelUrls_all_strings:
  "all_str seeds \<Longrightarrow> channelUrls seeds totalChannels = Inr A \<Longrightarrow> all_str A"
  by (auto simp: channelUrls_def Array_from_Inr_iff intro: all_str_from_spec channelUrlAt_is_str)

theorem channelUrls_all_strings_witness:
  "all_str sampleVideos \<and> (\<exists>A. defaultChannelUrls = Inr A \<and> all_str A)"
proof -
  obtain A where A: "channelUrls sampleVideos 10 = Inr A"
    using channelUrls_returns [of 10 sampleVideos] by auto
  with sampleVideos_all_str have "all_str A"
    by (rule channelUrls_all_strings)
  with sampleVideos_all_str A show ?thesis by (auto simp: defaultChannelUrls_eq)
qed

section \<open>The contract, index by index\<close>

text \<open>
  C7. When the generator returns an array, the array has the requested length (a
  negative length counting as 0), the entry at an index below the number of seeds is
  the seed at that index, and every other entry is the empty string.
\<close>

theorem channelUrls_contract:
  assumes "channelUrls seeds totalChannels = Inr A"
  shows "length A = nat totalChannels \<and>
         (\<forall>i < length A. A ! i = (if i < length seeds then seeds ! i else Str ''''))"
  using assms by (auto simp: channelUrls_cases nth_append split: if_splits)

theorem channelUrls_contract_witness:
  "\<exists>A. defaultChannelUrls = Inr A \<and> length A = 10 \<and>
       A ! 2 = sampleVideos ! 2 \<and> A ! 3 = Str ''''"
proof -
  obtain A where A: "channelUrls sampleVideos 10 = Inr A"
    using channelUrls_returns [of 10 sampleVideos] by auto
  from channelUrls_contract [OF A]
  have "length A = 10" and "A ! 2 = sampleVideos ! 2" and "A ! 3 = Str ''''"
    by (simp_all add: sampleVideos_def)
  with A show ?thesis by (simp add: defaultChannelUrls_eq)
qed

section \<open>Boundary cases\<close>

text \<open>
  C9. With an empty seed list the generator still returns a list of the requested
  length, every entry the empty string.
\<close>

theorem channelUrls_no_seeds:
  "totalChannels \<le> 2 ^ 32 - 1 \<Longrightarrow>
   channelUrls [] totalChannels = Inr (replicate (nat totalChannels) (Str ''''))"
  by (simp add: channelUrls_cases)

theorem channelUrls_no_seeds_witness:
  "channelUrls [] 10 = Inr [Str '''', Str '''', Str '''', Str '''', Str '''',
                           Str '''', Str '''', Str '''', Str '''', Str '''']"
  using channelUrls_no_seeds [of 10] by (simp add: numeral_eq_Suc)

text \<open>
  C10. When there are at least as many seeds as requested entries, the result is the
  first seeds only: the seeds beyond the requested length are dropped and no entry is
  a placeholder.
\<close>

theorem channelUrls_truncates:
  "nat totalChannels \<le> length seeds \<Longrightarrow> totalChannels \<le> 2 ^ 32 - 1 \<Longrightarrow>
   channelUrls seeds totalChannels = Inr (take (nat totalChannels) seeds)"
  by (simp add: channelUrls_cases)

theorem channelUrls_truncates_witness:
  "channelUrls sampleVideos 2 =
     Inr [Str ''https://commondatastorage.googleapis.com/gtv-videos-bucket/sample/BigBuckBunny.mp4'',
          Str ''https://commondatastorage.googleapis.com/gtv-videos-bucket/sample/ElephantsDream.mp4'']"
  using channelUrls_truncates [of 2 sampleVideos] by (simp add: sampleVideos_def)

text \<open>
  C11. The number of assigned channels (non-empty entries) of a generated list is the
  number of seeds, or the requested length if that is smaller, when no seed is the
  empty string.
\<close>

theorem channelUrls_assigned_count:
  assumes "list_all (\<lambda>u. u \<noteq> '''') seeds" and "totalChannels \<le> 2 ^ 32 - 1"
  shows "\<exists>cl. channels_of (channelUrls (map Str seeds) totalChannels) = Some cl \<and>
              length (filter (\<lambda>u. u \<noteq> '''') cl) = min (length seeds) (nat totalChannels)"
  using assms by (simp add: channelUrls_map_Str channels_of_def length_filter_channel_list)

theorem channelUrls_assigned_count_witness:
  "\<exists>cl. channels_of defaultChannelUrls = Some cl \<and>
        length (filter (\<lambda>u. u \<noteq> '''') cl) = 3"
  using channelUrls_assigned_count
    [of "[''https://commondatastorage.googleapis.com/gtv-videos-bucket/sample/BigBuckBunny.mp4'',
      ''https://commondatastorage.googleapis.com/gtv-videos-bucket/sample/ElephantsDream.mp4'',
      ''https://commondatastorage.googleapis.com/gtv-videos-bucket/sample/Sintel.mp4'']" 10]
  by (simp add: defaultChannelUrls_eq sampleVideos_def numeral_3_eq_3)

section \<open>Reading the seeds back\<close>

text \<open>
  C19. The seeds can be read back from a generated list: when no seed is the empty
  string and the list is long enough to hold them all, the non-empty entries of the
  list are the seeds, in their order.
\<close>

theorem channelUrls_seeds_roundtrip:
  assumes "list_all (\<lambda>u. u \<noteq> '''') seeds" and "int (length seeds) \<le> totalChannels"
    and "totalChannels \<le> 2 ^ 32 - 1"
  shows "\<exists>cl. channels_of (channelUrls (map Str seeds) totalChannels) = Some cl \<and>
              filter (\<lambda>u. u \<noteq> '''') cl = seeds"
  using assms by (simp add: channelUrls_map_Str channels_of_def filter_channel_list)

theorem channelUrls_seeds_roundtrip_witness:
  "\<exists>cl. channels_of defaultChannelUrls = Some cl \<and>
        map Str (filter (\<lambda>u. u \<noteq> '''') cl) = sampleVideos"
  using channelUrls_seeds_roundtrip
    [of "[''https://commondatastorage.googleapis.com/gtv-videos-bucket/sample/BigBuckBunny.mp4'',
      ''https://commondatastorage.googleapis.com/gtv-videos-bucket/sample/ElephantsDream.mp4'',
      ''https://commondatastorage.googleapis.com/gtv-videos-bucket/sample/Sintel.mp4'']" 10]
  by (auto simp: defaultChannelUrls_eq sampleVideos_def)

end
