(* ===== verification/JS_Array_Abrupt.thy ===== *)
theory JS_Array_Abrupt
  imports JS_Array "HOL-Library.While_Combinator"
begin

text \<open>
  \<^verbatim>\<open>Array.from(items, mapfn)\<close> with a callback that may throw. The callback of
  \<^verbatim>\<open>src/src/data/defaultChannels.js\<close> reads the module-level binding
  \<^verbatim>\<open>sampleVideos\<close>, and reading a binding that is not initialised throws; ECMA-262
  returns the abrupt completion of a callback call from \<^verbatim>\<open>Array.from\<close> at once.
  As in \<open>JS_Array\<close>, the operations of this theory are those of the JavaScript
  engine, transcribed from the standard: no line under \<^verbatim>\<open>src/\<close> implements them.

  The loop is kept as a loop here: \<open>from_while\<close> is \<open>while_option\<close> over the states
  of the loop, the index and either the array so far or the error thrown by the call
  at the index; \<open>from_exit\<close> is what follows the loop, the assignment to the length
  of the array. \<open>Array_fromE\<close> is \<^verbatim>\<open>Array.from\<close> over them; its result is an \<open>option\<close>,
  \<open>None\<close> standing for a loop that does not stop, and the first theorem is that this
  does not happen. The reference is \<open>from_specE\<close>: the calls for the indices
  \<open>0, \<dots>, len - 1\<close> in order, cut at the first that throws (\<open>collect\<close>).
\<close>

section \<open>The loop with a callback that may throw\<close>

type_synonym callback = "jsval \<Rightarrow> nat \<Rightarrow> jsval completion"

type_synonym from_state = "nat \<times> jsarray completion"

fun from_cond :: "nat \<Rightarrow> from_state \<Rightarrow> bool" where
  "from_cond len (k, Inr A) = (k < len)"
| "from_cond len (k, Inl e) = False"

fun from_body :: "arraylike \<Rightarrow> callback \<Rightarrow> from_state \<Rightarrow> from_state" where
  "from_body items mapfn (k, Inr A) =
     (case mapfn (Get items k) k of
        Inl e \<Rightarrow> (k, Inl e)
      | Inr v \<Rightarrow> (Suc k, Inr (js_store A k v)))"
| "from_body items mapfn (k, Inl e) = (k, Inl e)"

definition from_while :: "arraylike \<Rightarrow> callback \<Rightarrow> nat \<Rightarrow> jsarray \<Rightarrow> from_state option" where
  "from_while items mapfn len A =
     while_option (from_cond len) (from_body items mapfn) (0, Inr A)"

text \<open>
  After the loop: the error of the callback is returned as it is, and the array is
  returned after the assignment to its length.
\<close>

fun from_exit :: "nat \<Rightarrow> from_state \<Rightarrow> jsarray completion" where
  "from_exit len (k, Inl e) = Inl e"
| "from_exit len (k, Inr A) = ArraySetLength A len"

definition Array_fromE :: "arraylike \<Rightarrow> callback \<Rightarrow> jsarray completion option" where
  "Array_fromE items mapfn =
     (let len = ToLength (length_prop items) in
      case ArrayCreate len of
        Inl e \<Rightarrow> Some (Inl e)
      | Inr A \<Rightarrow> map_option (from_exit len) (from_while items mapfn len A))"

section \<open>The reference\<close>

fun collect :: "'a completion list \<Rightarrow> 'a list completion" where
  "collect [] = Inr []"
| "collect (Inl e # rs) = Inl e"
| "collect (Inr v # rs) = (case collect rs of Inl e \<Rightarrow> Inl e | Inr vs \<Rightarrow> Inr (v # vs))"

definition from_specE :: "arraylike \<Rightarrow> callback \<Rightarrow> nat \<Rightarrow> jsarray completion" where
  "from_specE items mapfn len = collect (map (\<lambda>k. mapfn (Get items k) k) [0..<len])"

section \<open>Collecting completions\<close>

lemma collect_map_Inr [simp]: "collect (map (\<lambda>x. Inr (f x)) xs) = Inr (map f xs)"
  by (induction xs) simp_all

lemma collect_Inr_length: "collect rs = Inr vs \<Longrightarrow> length vs = length rs"
  by (induction rs arbitrary: vs rule: collect.induct) (auto split: sum.splits)

lemma collect_Inl_iff:
  "collect rs = Inl e \<longleftrightarrow>
     (\<exists>j < length rs. rs ! j = Inl e \<and> (\<forall>i < j. \<exists>v. rs ! i = Inr v))"
proof (induction rs)
  case Nil
  show ?case by simp
next
  case (Cons r rs)
  show ?case
  proof (cases r)
    case (Inl e')
    have "(\<exists>j < length (r # rs). (r # rs) ! j = Inl e \<and> (\<forall>i < j. \<exists>v. (r # rs) ! i = Inr v))
        \<longleftrightarrow> e' = e" (is "?R \<longleftrightarrow> _")
    proof
      assume ?R
      then obtain j where j: "(r # rs) ! j = Inl e" "\<forall>i < j. \<exists>v. (r # rs) ! i = Inr v"
        by blast
      with Inl show "e' = e" by (cases j) auto
    next
      assume "e' = e"
      with Inl show ?R by (intro exI [of _ 0]) simp
    qed
    with Inl show ?thesis by auto
  next
    case (Inr v)
    have "(\<exists>j < length (r # rs). (r # rs) ! j = Inl e \<and> (\<forall>i < j. \<exists>v. (r # rs) ! i = Inr v))
        \<longleftrightarrow> (\<exists>j < length rs. rs ! j = Inl e \<and> (\<forall>i < j. \<exists>v. rs ! i = Inr v))"
      (is "?L \<longleftrightarrow> ?R")
    proof
      assume ?L
      then obtain j where j: "j < length (r # rs)" "(r # rs) ! j = Inl e"
        "\<forall>i < j. \<exists>v. (r # rs) ! i = Inr v" by blast
      from j(2) Inr obtain j' where j': "j = Suc j'" by (cases j) auto
      with j(3) have "\<forall>i < j'. \<exists>v. rs ! i = Inr v" by (auto dest: spec [of _ "Suc _"])
      with j j' show ?R by auto
    next
      assume ?R
      then obtain j where j: "j < length rs" "rs ! j = Inl e" "\<forall>i < j. \<exists>v. rs ! i = Inr v"
        by blast
      from j(3) Inr have "\<forall>i < Suc j. \<exists>v. (r # rs) ! i = Inr v"
        by (auto simp: nth_Cons split: nat.splits)
      with j(1,2) show ?L by (intro exI [of _ "Suc j"]) simp
    qed
    with Inr Cons.IH show ?thesis by (auto split: sum.splits)
  qed
qed

lemma from_specE_Inl_iff:
  "from_specE items mapfn len = Inl e \<longleftrightarrow>
     (\<exists>j < len. mapfn (Get items j) j = Inl e \<and> (\<forall>i < j. \<exists>v. mapfn (Get items i) i = Inr v))"
proof -
  have "(map (\<lambda>k. mapfn (Get items k) k) [0..<len] ! j = Inl e \<and>
         (\<forall>i < j. \<exists>v. map (\<lambda>k. mapfn (Get items k) k) [0..<len] ! i = Inr v)) \<longleftrightarrow>
        (mapfn (Get items j) j = Inl e \<and> (\<forall>i < j. \<exists>v. mapfn (Get items i) i = Inr v))"
    if "j < len" for j
    using that by simp
  then show ?thesis by (simp add: from_specE_def collect_Inl_iff cong: conj_cong)
qed

section \<open>The loop stops, and where\<close>

text \<open>
  Entered at index \<open>k\<close> with an array of the target length, the loop stops; it stops
  with the error of the first call from \<open>k\<close> on that throws, or else with the array
  whose slots from \<open>k\<close> on hold the results of the calls.
\<close>

lemma while_from_state:
  assumes "length A = len"
  shows "len - k = n \<Longrightarrow> k \<le> len \<Longrightarrow>
    \<exists>k' \<le> len. while_option (from_cond len) (from_body items mapfn) (k, Inr A) =
      Some (k', case collect (map (\<lambda>i. mapfn (Get items i) i) [k..<len]) of
                  Inl e \<Rightarrow> Inl e | Inr vs \<Rightarrow> Inr (take k A @ vs))"
  using assms
proof (induction n arbitrary: k A)
  case 0
  then have "k = len" by simp
  with "0.prems" show ?case by (subst while_option_unfold) simp
next
  case (Suc n)
  then have k: "k < len" by simp
  show ?case
  proof (cases "mapfn (Get items k) k")
    case (Inl e)
    have "while_option (from_cond len) (from_body items mapfn) (k, Inl e) = Some (k, Inl e)"
      by (subst while_option_unfold) simp
    with k Inl show ?thesis
      by (subst while_option_unfold) (auto simp: upt_conv_Cons)
  next
    case (Inr v)
    let ?A = "js_store A k v"
    from Suc.prems k have "len - Suc k = n" "Suc k \<le> len" "length ?A = len" by simp_all
    from Suc.IH [OF this] obtain k' where k': "k' \<le> len" and
      w: "while_option (from_cond len) (from_body items mapfn) (Suc k, Inr ?A) =
        Some (k', case collect (map (\<lambda>i. mapfn (Get items i) i) [Suc k..<len]) of
                    Inl e \<Rightarrow> Inl e | Inr vs \<Rightarrow> Inr (take (Suc k) ?A @ vs))"
      by blast
    from k Suc.prems have "take (Suc k) ?A = take k A @ [v]"
      by (simp add: take_Suc_list_update)
    with k Inr w k' show ?thesis
      by (subst while_option_unfold) (auto simp: upt_conv_Cons split: sum.splits)
  qed
qed

lemma from_while_eq:
  "length A = len \<Longrightarrow> \<exists>k \<le> len. from_while items mapfn len A = Some (k, from_specE items mapfn len)"
proof -
  assume len: "length A = len"
  have "(case collect (map (\<lambda>i. mapfn (Get items i) i) [0..<len]) of
           Inl e \<Rightarrow> Inl e | Inr vs \<Rightarrow> Inr (take 0 A @ vs)) = from_specE items mapfn len"
    by (simp add: from_specE_def split: sum.splits)
  with while_from_state [OF len, of 0 len items mapfn] show ?thesis
    by (simp add: from_while_def)
qed

text \<open>
  The assignment to the length after the loop changes nothing: the array has the length
  it was created with.
\<close>

lemma from_exit_specE:
  "len \<le> max_array_length \<Longrightarrow>
   from_exit len (k, from_specE items mapfn len) = from_specE items mapfn len"
  by (cases "from_specE items mapfn len")
    (auto simp: from_specE_def ArraySetLength_same dest: collect_Inr_length)

lemma Array_fromE_cases:
  "Array_fromE items mapfn =
     Some (if max_array_length < ToLength (length_prop items) then Inl RangeError
           else from_specE items mapfn (ToLength (length_prop items)))"
proof (cases "max_array_length < ToLength (length_prop items)")
  case True
  then show ?thesis by (simp add: Array_fromE_def ArrayCreate_cases)
next
  case False
  let ?len = "ToLength (length_prop items)"
  from from_while_eq [of "replicate ?len Undefined" ?len items mapfn]
  obtain k where "from_while items mapfn ?len (replicate ?len Undefined) =
      Some (k, from_specE items mapfn ?len)"
    by auto
  with False show ?thesis
    by (simp add: Array_fromE_def ArrayCreate_cases from_exit_specE not_less)
qed

lemmas [js_eval] = Array_fromE_cases from_specE_def

text \<open>
  C16. \<^verbatim>\<open>Array.from\<close> returns, whatever the callback does: the loop stops after at most
  as many calls as the length says, with the array or with the error of a call.
\<close>

theorem Array_fromE_terminates: "\<exists>r. Array_fromE items mapfn = Some r"
  by (simp add: Array_fromE_cases)

text \<open>
  With a callback that never throws, \<^verbatim>\<open>Array.from\<close> over the loop with abrupt
  completions is \<^verbatim>\<open>Array.from\<close> over the counting loop. This connects the module
  level of \<open>Channels_Module\<close> with the values of \<open>Default_Channels\<close>.
\<close>

lemma Array_fromE_total_callback:
  "Array_fromE items (\<lambda>v k. Inr (f v k)) = Some (Array_from items f)"
  by (simp add: Array_fromE_cases Array_from_cases from_specE_def from_spec_def)

text \<open>
  C17. \<^verbatim>\<open>Array.from\<close> throws what the first throwing call of the callback throws: it
  returns an error exactly when the array cannot be created, and the error is the
  \<^verbatim>\<open>RangeError\<close>, or when some call throws, and the error is that of the call with the
  least index. A call after the first that throws has no influence.
\<close>

theorem Array_fromE_error_iff:
  "Array_fromE items mapfn = Some (Inl e) \<longleftrightarrow>
     (2 ^ 32 - 1 < length_prop items \<and> e = RangeError) \<or>
     (length_prop items \<le> 2 ^ 32 - 1 \<and>
      (\<exists>j < ToLength (length_prop items). mapfn (Get items j) j = Inl e \<and>
         (\<forall>i < j. \<exists>v. mapfn (Get items i) i = Inr v)))"
proof (cases "4294967295 < length_prop items")
  case True
  then show ?thesis by (auto simp: Array_fromE_cases ToLength_gt_max_array_length_iff)
next
  case False
  then show ?thesis
    by (simp add: Array_fromE_cases ToLength_gt_max_array_length_iff from_specE_Inl_iff)
qed

theorem Array_fromE_error_iff_witness:
  "Array_fromE \<lparr>length_prop = 3, elems = Map.empty\<rparr>
     (\<lambda>v k. if k = 0 then Inr (Str ''a'') else Inl (ReferenceError (if k = 1 then ''x'' else ''y'')))
     = Some (Inl (ReferenceError ''x''))"
proof -
  let ?f = "\<lambda>v k. if k = 0 then Inr (Str ''a'')
                   else Inl (ReferenceError (if k = 1 then ''x'' else ''y''))"
  let ?items = "\<lparr>length_prop = 3, elems = Map.empty\<rparr>"
  have "\<exists>j < ToLength (length_prop ?items). ?f (Get ?items j) j = Inl (ReferenceError ''x'') \<and>
      (\<forall>i < j. \<exists>v. ?f (Get ?items i) i = Inr v)"
    by (intro exI [of _ 1]) (simp add: ToLength_def max_safe_integer_def)
  then show ?thesis
    using Array_fromE_error_iff [of ?items ?f "ReferenceError ''x''"] by simp
qed

end
