(* ===== verification/ES_Module.thy ===== *)
theory ES_Module
  imports JS_Prelude
begin

text \<open>
  The import declarations of an ECMAScript module, as \<^verbatim>\<open>src/src/main.js\<close> (lines 1-5)
  and \<^verbatim>\<open>src/vite.config.js\<close> (lines 1-2) write them. Both modules are modelled over
  this theory, so that they agree on what an import declaration does.

  \<^item> An import declaration (\<open>import_decl\<close>) is a clause and a module specifier. The
    clause \<^verbatim>\<open>{ x }\<close> binds \<open>x\<close> to the export \<open>x\<close> of the module (\<open>Named\<close>), the clause
    \<^verbatim>\<open>x\<close> binds \<open>x\<close> to its export \<^verbatim>\<open>default\<close> (\<open>Default\<close>), and a declaration without
    a clause binds nothing (\<open>SideEffect\<close>).
  \<^item> Every import declaration, with or without a clause, requests its module: the
    requested modules (\<open>requested_modules\<close>) are the specifiers of all declarations in
    source order, each once, and this is the order in which the modules are evaluated
    before the statements of the importing module run.
  \<^item> The scope of a module (\<open>scope_of\<close>) is the association list of its import
    bindings, in source order; \<open>resolve\<close> looks an identifier up, and \<open>bound_names\<close>
    are the identifiers it binds.
  \<^item> Linking (\<open>link\<close>) rejects a module that binds a name twice with a
    \<^verbatim>\<open>SyntaxError\<close>, the early error of ECMA-262, and yields the scope otherwise.

  What the imported modules export is outside the sources and is not modelled: an
  import binding is the pair of the module specifier and the export name. Whether a
  specifier resolves to a file and whether the module has the export are not modelled
  either.
\<close>

section \<open>Import declarations\<close>

datatype import_clause = Named string | Default string | SideEffect

type_synonym import_decl = "import_clause \<times> string"

type_synonym export_ref = "string \<times> string"

type_synonym scope = "(string \<times> export_ref) list"

fun binding_of :: "import_decl \<Rightarrow> scope" where
  "binding_of (Named x, s) = [(x, (s, x))]"
| "binding_of (Default x, s) = [(x, (s, ''default''))]"
| "binding_of (SideEffect, s) = []"

definition scope_of :: "import_decl list \<Rightarrow> scope" where
  "scope_of ds = concat (map binding_of ds)"

definition bound_names :: "import_decl list \<Rightarrow> string list" where
  "bound_names ds = map fst (scope_of ds)"

definition resolve :: "scope \<Rightarrow> string \<Rightarrow> export_ref option" where
  "resolve sc x = map_of sc x"

fun add_request :: "string list \<Rightarrow> string \<Rightarrow> string list" where
  "add_request rs s = (if s \<in> set rs then rs else rs @ [s])"

definition requested_modules :: "import_decl list \<Rightarrow> string list" where
  "requested_modules ds = foldl add_request [] (map snd ds)"

section \<open>Linking\<close>

fun first_dup :: "string list \<Rightarrow> string option" where
  "first_dup [] = None"
| "first_dup (x # xs) = (if x \<in> set xs then Some x else first_dup xs)"

definition link :: "import_decl list \<Rightarrow> scope completion" where
  "link ds =
     (case first_dup (bound_names ds) of
        Some x \<Rightarrow> Inl (SyntaxError x)
      | None \<Rightarrow> Inr (scope_of ds))"

section \<open>The early error\<close>

lemma first_dup_None_iff: "first_dup xs = None \<longleftrightarrow> distinct xs"
  by (induction xs) simp_all

lemma link_Inr_iff: "link ds = Inr sc \<longleftrightarrow> distinct (bound_names ds) \<and> sc = scope_of ds"
  by (cases "first_dup (bound_names ds)")
    (auto simp: link_def first_dup_None_iff [symmetric])

end
