(* ===== verification/Channels_Module.thy ===== *)
theory Channels_Module
  imports Default_Channels JS_Array_Abrupt ES_Module
begin

text \<open>
  \<^verbatim>\<open>src/src/data/defaultChannels.js\<close> as a module: two lexical declarations that are
  evaluated in source order. \<open>Default_Channels\<close> models the value of the second
  declaration as an expression, with the array of the first as a parameter of the
  callback; here the callback reads the binding \<^verbatim>\<open>sampleVideos\<close> from the module's
  environment at the time it is called, as the code does.

  \<^item> A declaration (\<open>decl\<close>) is \<^verbatim>\<open>const x = e\<close> or \<^verbatim>\<open>export const x = e\<close>. The
    initialisers that occur (\<open>init_expr\<close>) are an array literal and
    \<^verbatim>\<open>Array.from({ length: n }, callback)\<close>, where the callback is the arrow function
    of the source and closes over the array bound to a name.
  \<^item> The environment (\<open>env\<close>) holds the bindings that are initialised, in the order
    of their initialisation. A binding of the module that is not initialised yet is in
    its temporal dead zone: reading it throws a \<^verbatim>\<open>ReferenceError\<close>
    (\<open>channelUrlAt_in\<close>). The callback is called only while \<^verbatim>\<open>Array.from\<close> runs, so
    the environment it reads is the one in which the initialiser is evaluated.
  \<^item> \<open>eval_decls\<close> evaluates the declarations in order and stops at the first error;
    \<open>eval_module\<close> first rejects a module that declares a name twice, the early
    \<^verbatim>\<open>SyntaxError\<close>. The results are options because \<open>Array_fromE\<close> is one.
  \<^item> \<open>module_exports\<close> is what an importing module can see: the exported bindings.
\<close>

section \<open>Declarations\<close>

datatype init_expr = ArrayLiteral jsarray | ArrayFromLength int string

datatype decl = Const string init_expr | ExportConst string init_expr

type_synonym env = "(string \<times> jsarray) list"

definition defaultChannels_js :: "decl list" where
  "defaultChannels_js =
     [Const ''sampleVideos'' (ArrayLiteral sampleVideos),
      ExportConst ''defaultChannelUrls'' (ArrayFromLength 10 ''sampleVideos'')]"

fun decl_name :: "decl \<Rightarrow> string" where
  "decl_name (Const x e) = x"
| "decl_name (ExportConst x e) = x"

fun decl_init :: "decl \<Rightarrow> init_expr" where
  "decl_init (Const x e) = e"
| "decl_init (ExportConst x e) = e"

fun is_exported :: "decl \<Rightarrow> bool" where
  "is_exported (Const x e) = False"
| "is_exported (ExportConst x e) = True"

section \<open>Evaluation\<close>

definition channelUrlAt_in :: "env \<Rightarrow> string \<Rightarrow> callback" where
  "channelUrlAt_in env x u index =
     (case map_of env x of
        None \<Rightarrow> Inl (ReferenceError x)
      | Some seeds \<Rightarrow> Inr (channelUrlAt seeds u index))"

fun eval_init :: "env \<Rightarrow> init_expr \<Rightarrow> jsarray completion option" where
  "eval_init env (ArrayLiteral xs) = Some (Inr xs)"
| "eval_init env (ArrayFromLength n x) =
     Array_fromE \<lparr>length_prop = n, elems = Map.empty\<rparr> (channelUrlAt_in env x)"

fun eval_decls :: "env \<Rightarrow> decl list \<Rightarrow> env completion option" where
  "eval_decls env [] = Some (Inr env)"
| "eval_decls env (d # ds) =
     (case eval_init env (decl_init d) of
        None \<Rightarrow> None
      | Some (Inl e) \<Rightarrow> Some (Inl e)
      | Some (Inr v) \<Rightarrow> eval_decls (env @ [(decl_name d, v)]) ds)"

definition eval_module :: "decl list \<Rightarrow> env completion option" where
  "eval_module ds =
     (case first_dup (map decl_name ds) of
        Some x \<Rightarrow> Some (Inl (SyntaxError x))
      | None \<Rightarrow> eval_decls [] ds)"

definition exported_names :: "decl list \<Rightarrow> string list" where
  "exported_names ds = map decl_name (filter is_exported ds)"

definition module_exports :: "decl list \<Rightarrow> env completion option" where
  "module_exports ds =
     (case eval_module ds of
        None \<Rightarrow> None
      | Some (Inl e) \<Rightarrow> Some (Inl e)
      | Some (Inr env) \<Rightarrow> Some (Inr (filter (\<lambda>b. fst b \<in> set (exported_names ds)) env)))"

section \<open>The callback in an environment\<close>

declare eval_init.simps(2) [simp del]

lemma channelUrlAt_in_bound:
  "map_of env x = Some seeds \<Longrightarrow> channelUrlAt_in env x = (\<lambda>u index. Inr (channelUrlAt seeds u index))"
  by (simp add: channelUrlAt_in_def fun_eq_iff)

lemma channelUrlAt_in_unbound:
  "map_of env x = None \<Longrightarrow> channelUrlAt_in env x = (\<lambda>u index. Inl (ReferenceError x))"
  by (simp add: channelUrlAt_in_def fun_eq_iff)

lemma collect_map_Inl: "collect (map (\<lambda>k. Inl e) xs) = (if xs = [] then Inr [] else Inl e)"
  by (cases xs) simp_all

lemma eval_init_bound:
  "map_of env x = Some seeds \<Longrightarrow> eval_init env (ArrayFromLength n x) = Some (channelUrls seeds n)"
  by (simp add: eval_init.simps channelUrlAt_in_bound Array_fromE_total_callback
      channelUrls_def)

lemma eval_init_unbound:
  "map_of env x = None \<Longrightarrow>
   eval_init env (ArrayFromLength n x) =
     Some (if 4294967295 < n then Inl RangeError
           else if 0 < n then Inl (ReferenceError x) else Inr [])"
  by (simp add: eval_init.simps channelUrlAt_in_unbound Array_fromE_cases
      ToLength_gt_max_array_length_iff from_specE_def collect_map_Inl ToLength_eq_0_iff)

section \<open>The module\<close>

text \<open>
  C15. A module of the shape of \<^verbatim>\<open>defaultChannels.js\<close>, the array first and the
  generated list second, evaluates to what the expression-level model says: the list
  bound to the second name is \<open>channelUrls\<close> of the array and the length, and the module
  throws exactly when \<open>channelUrls\<close> does. For \<^verbatim>\<open>defaultChannels.js\<close> itself the
  environment binds \<^verbatim>\<open>sampleVideos\<close> and the list of ten entries.
\<close>

theorem eval_module_refines_channelUrls:
  "x \<noteq> y \<Longrightarrow>
   eval_module [Const x (ArrayLiteral seeds), ExportConst y (ArrayFromLength n x)] =
     Some (case channelUrls seeds n of
             Inl e \<Rightarrow> Inl e
           | Inr A \<Rightarrow> Inr [(x, seeds), (y, A)])"
  by (simp add: eval_module_def eval_init_bound split: sum.splits)

theorem eval_module_refines_channelUrls_witness:
  "eval_module defaultChannels_js =
     Some (Inr [(''sampleVideos'', sampleVideos),
                (''defaultChannelUrls'',
                 take 3 sampleVideos @ replicate 7 (Str ''''))])"
  using eval_module_refines_channelUrls [of "''sampleVideos''" "''defaultChannelUrls''"
      sampleVideos 10]
  by (simp add: defaultChannels_js_def channelUrls_cases sampleVideos_def)

text \<open>
  C18. The order of the two declarations matters. When the generated list is declared
  before the array, the callback reads a binding in its temporal dead zone: the module
  throws a \<^verbatim>\<open>ReferenceError\<close> that names the array, unless the length is not positive,
  in which case the callback is never called and the list is empty, or the length is
  beyond \<open>2\<^sup>3\<^sup>2 - 1\<close>, in which case the \<^verbatim>\<open>RangeError\<close> of the array creation comes
  first.
\<close>

theorem eval_module_swapped:
  "x \<noteq> y \<Longrightarrow>
   eval_module [ExportConst y (ArrayFromLength n x), Const x (ArrayLiteral seeds)] =
     Some (if 2 ^ 32 - 1 < n then Inl RangeError
           else if 0 < n then Inl (ReferenceError x)
           else Inr [(y, []), (x, seeds)])"
  by (simp add: eval_module_def eval_init_unbound)

theorem eval_module_swapped_witness:
  "eval_module [ExportConst ''defaultChannelUrls'' (ArrayFromLength 10 ''sampleVideos''),
                Const ''sampleVideos'' (ArrayLiteral sampleVideos)] =
     Some (Inl (ReferenceError ''sampleVideos''))"
  using eval_module_swapped [of "''sampleVideos''" "''defaultChannelUrls''" 10 sampleVideos]
  by simp

text \<open>
  C21. \<^verbatim>\<open>defaultChannels.js\<close> exports one binding, \<^verbatim>\<open>defaultChannelUrls\<close>, and its
  value is the value of the expression-level model; \<^verbatim>\<open>sampleVideos\<close> is not visible
  to an importing module.
\<close>

theorem defaultChannels_js_exports:
  "\<exists>A. defaultChannelUrls = Inr A \<and>
       module_exports defaultChannels_js = Some (Inr [(''defaultChannelUrls'', A)])"
  by (simp add: module_exports_def eval_module_def defaultChannels_js_def eval_init_bound
      exported_names_def defaultChannelUrls_eq channelUrls_cases)

end
