(* ===== verification/JS_Expr.thy ===== *)
theory JS_Expr
  imports ES_Module
begin

text \<open>
  The expressions and statements of \<^verbatim>\<open>src/src/main.js\<close> (line 7) and
  \<^verbatim>\<open>src/vite.config.js\<close> (lines 4-7), and how a module that consists of import
  declarations and such statements is evaluated.

  \<^item> The syntax (\<open>expr\<close>, \<open>stmt\<close>) has the forms the two files use and no other:
    identifiers, string literals, object and array literals, the call
    \<^verbatim>\<open>f(args)\<close>, the method call \<^verbatim>\<open>e.m(args)\<close>, the expression statement and
    \<^verbatim>\<open>export default e\<close>. A module (\<open>js_module\<close>) is its import declarations and
    its statements, both in source order.
  \<^item> Every function the two files call comes from an imported module, and what it
    does is outside the sources. So values are symbolic (\<open>sval\<close>): the value of an
    import binding is the export it refers to (\<open>VImport\<close>), and the result of a call
    is the call itself, the function or the receiver and method with the argument
    values (\<open>VCall\<close>, \<open>VMethod\<close>). Nothing is assumed of the libraries.
  \<^item> Evaluation (\<open>eval_expr\<close>) follows the order of ECMA-262: an identifier that is
    not bound throws a \<^verbatim>\<open>ReferenceError\<close>; in a call the function is evaluated first,
    then the arguments from left to right, then the call is made, and a literal in the
    place of the function throws a \<^verbatim>\<open>TypeError\<close> at that point; properties and
    elements of literals are evaluated in their order. The calls that were made are
    recorded in the order they were made, also when a later part of the expression
    throws.
  \<^item> A module is evaluated (\<open>run_module\<close>) by linking its import declarations, which
    may fail with the early \<^verbatim>\<open>SyntaxError\<close> before anything is evaluated, requesting
    the imported modules, and then evaluating its statements in order up to the first
    that throws. The outcome (\<open>run\<close>) is the list of modules requested, the calls
    made, the exports and the error thrown, if any.
\<close>

section \<open>Syntax\<close>

datatype expr =
    Ident string
  | StrLit string
  | ObjectLit "(string \<times> expr) list"
  | ArrayLit "expr list"
  | Call expr "expr list"
  | MethodCall expr string "expr list"

datatype stmt = ExprStmt expr | ExportDefault expr

record js_module =
  decls :: "import_decl list"
  stmts :: "stmt list"

section \<open>Values\<close>

datatype sval =
    VStr string
  | VImport export_ref
  | VObject "(string \<times> sval) list"
  | VArray "sval list"
  | VCall sval "sval list"
  | VMethod sval string "sval list"

text \<open>
  A literal is not a function. A value from outside the sources is taken to be one
  where the module calls it: whether it is, is the library's concern.
\<close>

fun callable :: "sval \<Rightarrow> bool" where
  "callable (VStr s) = False"
| "callable (VObject ps) = False"
| "callable (VArray vs) = False"
| "callable (VImport r) = True"
| "callable (VCall f vs) = True"
| "callable (VMethod v m vs) = True"

section \<open>Evaluation of expressions\<close>

type_synonym 'a eval_result = "'a completion \<times> sval list"

fun eval_expr :: "scope \<Rightarrow> expr \<Rightarrow> sval list \<Rightarrow> sval eval_result"
  and eval_args :: "scope \<Rightarrow> expr list \<Rightarrow> sval list \<Rightarrow> sval list eval_result"
  and eval_props ::
    "scope \<Rightarrow> (string \<times> expr) list \<Rightarrow> sval list \<Rightarrow> (string \<times> sval) list eval_result"
where
  "eval_expr sc (Ident x) cs =
     (case resolve sc x of
        None \<Rightarrow> (Inl (ReferenceError x), cs)
      | Some r \<Rightarrow> (Inr (VImport r), cs))"
| "eval_expr sc (StrLit s) cs = (Inr (VStr s), cs)"
| "eval_expr sc (ObjectLit ps) cs =
     (case eval_props sc ps cs of
        (Inl e, cs') \<Rightarrow> (Inl e, cs')
      | (Inr vs, cs') \<Rightarrow> (Inr (VObject vs), cs'))"
| "eval_expr sc (ArrayLit es) cs =
     (case eval_args sc es cs of
        (Inl e, cs') \<Rightarrow> (Inl e, cs')
      | (Inr vs, cs') \<Rightarrow> (Inr (VArray vs), cs'))"
| "eval_expr sc (Call f es) cs =
     (case eval_expr sc f cs of
        (Inl e, cs') \<Rightarrow> (Inl e, cs')
      | (Inr fv, cs') \<Rightarrow>
          (case eval_args sc es cs' of
             (Inl e, cs'') \<Rightarrow> (Inl e, cs'')
           | (Inr vs, cs'') \<Rightarrow>
               if callable fv then (Inr (VCall fv vs), cs'' @ [VCall fv vs])
               else (Inl TypeError, cs'')))"
| "eval_expr sc (MethodCall r m es) cs =
     (case eval_expr sc r cs of
        (Inl e, cs') \<Rightarrow> (Inl e, cs')
      | (Inr rv, cs') \<Rightarrow>
          (case eval_args sc es cs' of
             (Inl e, cs'') \<Rightarrow> (Inl e, cs'')
           | (Inr vs, cs'') \<Rightarrow> (Inr (VMethod rv m vs), cs'' @ [VMethod rv m vs])))"
| "eval_args sc [] cs = (Inr [], cs)"
| "eval_args sc (e # es) cs =
     (case eval_expr sc e cs of
        (Inl err, cs') \<Rightarrow> (Inl err, cs')
      | (Inr v, cs') \<Rightarrow>
          (case eval_args sc es cs' of
             (Inl err, cs'') \<Rightarrow> (Inl err, cs'')
           | (Inr vs, cs'') \<Rightarrow> (Inr (v # vs), cs'')))"
| "eval_props sc [] cs = (Inr [], cs)"
| "eval_props sc ((k, e) # ps) cs =
     (case eval_expr sc e cs of
        (Inl err, cs') \<Rightarrow> (Inl err, cs')
      | (Inr v, cs') \<Rightarrow>
          (case eval_props sc ps cs' of
             (Inl err, cs'') \<Rightarrow> (Inl err, cs'')
           | (Inr vs, cs'') \<Rightarrow> (Inr ((k, v) # vs), cs'')))"

section \<open>Evaluation of modules\<close>

record run =
  requested :: "string list"
  calls :: "sval list"
  exports :: "(string \<times> sval) list"
  thrown :: "js_error option"

fun exec_stmts :: "scope \<Rightarrow> stmt list \<Rightarrow> run \<Rightarrow> run" where
  "exec_stmts sc [] r = r"
| "exec_stmts sc (ExprStmt e # ss) r =
     (case eval_expr sc e (calls r) of
        (Inl err, cs) \<Rightarrow> r\<lparr>calls := cs, thrown := Some err\<rparr>
      | (Inr v, cs) \<Rightarrow> exec_stmts sc ss (r\<lparr>calls := cs\<rparr>))"
| "exec_stmts sc (ExportDefault e # ss) r =
     (case eval_expr sc e (calls r) of
        (Inl err, cs) \<Rightarrow> r\<lparr>calls := cs, thrown := Some err\<rparr>
      | (Inr v, cs) \<Rightarrow>
          exec_stmts sc ss (r\<lparr>calls := cs, exports := exports r @ [(''default'', v)]\<rparr>))"

definition run_module :: "js_module \<Rightarrow> run" where
  "run_module m =
     (case link (decls m) of
        Inl e \<Rightarrow> \<lparr>requested = [], calls = [], exports = [], thrown = Some e\<rparr>
      | Inr sc \<Rightarrow>
          exec_stmts sc (stmts m)
            \<lparr>requested = requested_modules (decls m), calls = [], exports = [],
             thrown = None\<rparr>)"

end
