(* ===== verification/Bootstrap.thy ===== *)
theory Bootstrap
  imports JS_Expr
begin

text \<open>
  The entry module \<^verbatim>\<open>src/src/main.js\<close>: five import declarations (lines 1-5) and one
  statement (line 7), the method chain \<^verbatim>\<open>createApp(App).use(Antd).mount("#app")\<close>.

  \<open>main_js\<close> is the module as it is written, over the syntax of \<open>JS_Expr\<close>: the
  declarations in source order, and the statement as a call of \<^verbatim>\<open>createApp\<close> whose
  result is the receiver of \<^verbatim>\<open>use\<close>, whose result is the receiver of \<^verbatim>\<open>mount\<close>.
  Its evaluation is \<open>run_module main_js\<close>. The functions and methods are those of
  the framework, so the calls are symbolic: the theorems say which calls the module
  makes, on what and in which order, and nothing about what the framework does in
  them.

  \<open>main_js_stmts\<close> are the statements alone; with them the last theorem evaluates the
  statement in the scope of other import declarations.
\<close>

section \<open>The module\<close>

definition main_js_stmts :: "stmt list" where
  "main_js_stmts =
     [ExprStmt
        (MethodCall
           (MethodCall (Call (Ident ''createApp'') [Ident ''App'']) ''use'' [Ident ''Antd''])
           ''mount'' [StrLit ''#app''])]"

definition main_js :: js_module where
  "main_js =
     \<lparr>decls =
        [(Named ''createApp'', ''vue''),
         (Default ''Antd'', ''ant-design-vue''),
         (SideEffect, ''ant-design-vue/dist/reset.css''),
         (Default ''App'', ''./App.vue''),
         (SideEffect, ''./styles/main.css'')],
      stmts = main_js_stmts\<rparr>"

section \<open>Evaluation\<close>

text \<open>
  C14. The entry module evaluates without an error. It requests the five modules in
  the order of its import declarations, the reset stylesheet before the application's
  own. Then it makes three calls, in this order: \<^verbatim>\<open>createApp\<close>, the export of that
  name of \<^verbatim>\<open>vue\<close>, on the default export of \<^verbatim>\<open>./App.vue\<close>; \<^verbatim>\<open>use\<close>, on the result
  of that call, with the default export of \<^verbatim>\<open>ant-design-vue\<close>; and \<^verbatim>\<open>mount\<close>, on
  the result of \<^verbatim>\<open>use\<close>, with the selector \<^verbatim>\<open>#app\<close>. So the plugin is installed
  before the application is mounted, and the module exports nothing.
\<close>

theorem main_js_boots:
  "(let app = VCall (VImport (''vue'', ''createApp'')) [VImport (''./App.vue'', ''default'')];
        used = VMethod app ''use'' [VImport (''ant-design-vue'', ''default'')];
        mounted = VMethod used ''mount'' [VStr ''#app'']
    in run_module main_js =
         \<lparr>requested =
            [''vue'', ''ant-design-vue'', ''ant-design-vue/dist/reset.css'', ''./App.vue'',
             ''./styles/main.css''],
          calls = [app, used, mounted], exports = [], thrown = None\<rparr>)"
  by (simp add: run_module_def main_js_def main_js_stmts_def link_def scope_of_def
      bound_names_def requested_modules_def resolve_def)

text \<open>
  C22. The import declarations of \<^verbatim>\<open>main.js\<close> link: no identifier is bound twice. The
  scope binds \<^verbatim>\<open>createApp\<close> to the export of that name of \<^verbatim>\<open>vue\<close>, \<^verbatim>\<open>Antd\<close> to the
  default export of \<^verbatim>\<open>ant-design-vue\<close>, and \<^verbatim>\<open>App\<close> to the default export of
  \<^verbatim>\<open>./App.vue\<close>; the two stylesheet imports bind nothing.
\<close>

theorem main_js_scope:
  "link (decls main_js) =
     Inr [(''createApp'', (''vue'', ''createApp'')),
          (''Antd'', (''ant-design-vue'', ''default'')),
          (''App'', (''./App.vue'', ''default''))] \<and>
   distinct (bound_names (decls main_js))"
  by (simp add: link_def main_js_def scope_of_def bound_names_def)

section \<open>The statement in another scope\<close>

text \<open>
  C24. The statement needs its three imports, and what the module has done when an
  import is missing depends on which. In the scope of any import declarations that
  link, the statement reads \<^verbatim>\<open>createApp\<close> first and then \<^verbatim>\<open>App\<close>: when one of them is
  not bound the module throws a \<^verbatim>\<open>ReferenceError\<close> that names it and has called
  nothing. When \<^verbatim>\<open>Antd\<close> is not bound the application has been created by the time
  the \<^verbatim>\<open>ReferenceError\<close> is thrown, since \<^verbatim>\<open>createApp\<close> is called before the argument
  of \<^verbatim>\<open>use\<close> is read, and \<^verbatim>\<open>mount\<close> is never called. In each case the modules of
  the declarations have been requested before.
\<close>

theorem main_js_needs_imports:
  assumes "link ds = Inr sc"
  shows "run_module \<lparr>decls = ds, stmts = main_js_stmts\<rparr> =
     (let r = \<lparr>requested = requested_modules ds, calls = [], exports = [], thrown = None\<rparr>
      in case resolve sc ''createApp'' of
           None \<Rightarrow> r\<lparr>thrown := Some (ReferenceError ''createApp'')\<rparr>
         | Some f \<Rightarrow>
             (case resolve sc ''App'' of
                None \<Rightarrow> r\<lparr>thrown := Some (ReferenceError ''App'')\<rparr>
              | Some a \<Rightarrow>
                  (let app = VCall (VImport f) [VImport a]
                   in case resolve sc ''Antd'' of
                        None \<Rightarrow> r\<lparr>calls := [app], thrown := Some (ReferenceError ''Antd'')\<rparr>
                      | Some p \<Rightarrow>
                          r\<lparr>calls :=
                              [app, VMethod app ''use'' [VImport p],
                               VMethod (VMethod app ''use'' [VImport p]) ''mount''
                                 [VStr ''#app'']]\<rparr>)))"
  using assms by (simp add: run_module_def main_js_stmts_def Let_def split: option.splits)

theorem main_js_needs_imports_witness:
  "run_module
     \<lparr>decls =
        [(Named ''createApp'', ''vue''),
         (SideEffect, ''ant-design-vue/dist/reset.css''),
         (Default ''App'', ''./App.vue''),
         (SideEffect, ''./styles/main.css'')],
      stmts = main_js_stmts\<rparr> =
     \<lparr>requested =
        [''vue'', ''ant-design-vue/dist/reset.css'', ''./App.vue'', ''./styles/main.css''],
      calls = [VCall (VImport (''vue'', ''createApp'')) [VImport (''./App.vue'', ''default'')]],
      exports = [], thrown = Some (ReferenceError ''Antd'')\<rparr>"
proof -
  let ?ds = "[(Named ''createApp'', ''vue''),
              (SideEffect, ''ant-design-vue/dist/reset.css''),
              (Default ''App'', ''./App.vue''),
              (SideEffect, ''./styles/main.css'')]"
  have "link ?ds =
      Inr [(''createApp'', (''vue'', ''createApp'')), (''App'', (''./App.vue'', ''default''))]"
    by (simp add: link_def scope_of_def bound_names_def)
  from main_js_needs_imports [OF this] show ?thesis
    by (simp add: resolve_def requested_modules_def)
qed

end
