(* ===== verification/Vite_Config.thy ===== *)
theory Vite_Config
  imports JS_Expr
begin

text \<open>
  The build configuration \<^verbatim>\<open>src/vite.config.js\<close>: two import declarations (lines 1-2)
  and one statement (lines 4-7), the default export of what \<^verbatim>\<open>defineConfig\<close> returns
  for an object literal with the properties \<^verbatim>\<open>base\<close> and \<^verbatim>\<open>plugins\<close>.

  \<open>vite_config_js\<close> is the module as it is written, over the syntax of \<open>JS_Expr\<close>,
  and its evaluation is \<open>run_module vite_config_js\<close>. Both functions it calls, the
  plugin factory \<^verbatim>\<open>vue\<close> and \<^verbatim>\<open>defineConfig\<close>, come from imported packages, so the
  calls are symbolic: the theorem says what the module hands to the build tool, and
  nothing about what the build tool or the plugin do with it.
\<close>

section \<open>The module\<close>

definition vite_config_js :: js_module where
  "vite_config_js =
     \<lparr>decls =
        [(Named ''defineConfig'', ''vite''),
         (Default ''vue'', ''@vitejs/plugin-vue'')],
      stmts =
        [ExportDefault
           (Call (Ident ''defineConfig'')
              [ObjectLit
                 [(''base'', StrLit ''/kids-tv-player/''),
                  (''plugins'', ArrayLit [Call (Ident ''vue'') []])]])]\<rparr>"

section \<open>Evaluation\<close>

text \<open>
  C20. The build configuration evaluates without an error. It requests \<^verbatim>\<open>vite\<close> and
  then \<^verbatim>\<open>@vitejs/plugin-vue\<close>. It calls the default export of the plugin package
  without arguments, and then the export \<^verbatim>\<open>defineConfig\<close> of \<^verbatim>\<open>vite\<close> on an object
  whose \<^verbatim>\<open>base\<close> is \<^verbatim>\<open>/kids-tv-player/\<close> and whose \<^verbatim>\<open>plugins\<close> are the one plugin the
  first call returned. Its default export is the result of the second call, and it
  has no other export.
\<close>

theorem vite_config_module_evaluates:
  "(let plugin = VCall (VImport (''@vitejs/plugin-vue'', ''default'')) [];
        config =
          VCall (VImport (''vite'', ''defineConfig''))
            [VObject [(''base'', VStr ''/kids-tv-player/''), (''plugins'', VArray [plugin])]]
    in run_module vite_config_js =
         \<lparr>requested = [''vite'', ''@vitejs/plugin-vue''],
          calls = [plugin, config], exports = [(''default'', config)], thrown = None\<rparr>)"
  by (simp add: run_module_def vite_config_js_def link_def scope_of_def bound_names_def
      requested_modules_def resolve_def)

end
