(* ===== verification/Spec2Isabelle.thy ===== *)
theory Spec2Isabelle
  imports Channels_Module Bootstrap Vite_Config
begin

text \<open>
  \<^bold>\<open>A verification development for kids-tv-player.\<close>

  The repository is a small Vue front end. Its sources under \<^verbatim>\<open>src/\<close> are three
  modules:
  \<^item> \<^verbatim>\<open>src/src/data/defaultChannels.js\<close> builds the list of ten channel URLs the
    application starts with: three sample URLs and seven empty placeholders;
  \<^item> \<^verbatim>\<open>src/src/main.js\<close> imports the framework, the widget library, two stylesheets
    and the root component, and then evaluates one statement, the method chain
    \<^verbatim>\<open>createApp(App).use(Antd).mount("#app")\<close>;
  \<^item> \<^verbatim>\<open>src/vite.config.js\<close> imports the build tool's helper and the Vue plugin and
    exports what \<^verbatim>\<open>defineConfig\<close> returns for an object with a base path and one
    plugin.

  The modules do not call each other. The channel list is consumed by the root
  component \<^verbatim>\<open>App.vue\<close>, which is not among the sources and is not modelled.

  \<^bold>\<open>Two kinds of definitions.\<close> Some definitions translate lines of the sources: the
  seed array, the callback, the declarations of \<^verbatim>\<open>defaultChannels.js\<close>, the import
  declarations and the statements of the other two modules, and the evaluation of these
  pieces of syntax. Others give the meaning of what the sources only call: the
  built-in \<^verbatim>\<open>Array.from\<close> of the JavaScript engine, which is transcribed from
  ECMA-262 in \<open>JS_Array\<close> and \<open>JS_Array_Abrupt\<close>. No line under \<^verbatim>\<open>src/\<close> implements
  it; the theorems that are only about it are theorems about the engine's side of the
  call in line 7 of \<^verbatim>\<open>defaultChannels.js\<close>. The functions of the framework and of the
  build tool are not given a meaning at all: a call of one of them is a symbolic value.

  \<^bold>\<open>The theories.\<close>
  \<^descr>[\<open>JS_Prelude\<close>] The values that occur in arrays (\<open>jsval\<close>: a string or
    \<^verbatim>\<open>undefined\<close>), the native errors (\<open>js_error\<close>), the result of an evaluation that
    may throw (\<open>'a completion\<close>, a sum with the error on the left), the abstraction
    from arrays of values to lists of strings (\<open>strings_of\<close>), the collection
    \<open>js_eval\<close> of evaluation rules, and list lemmas.
  \<^descr>[\<open>JS_Array\<close>] The engine's \<^verbatim>\<open>Array.from(items, mapfn)\<close> on an array-like object
    (\<open>arraylike\<close>, \<open>Get\<close>), following ECMA-262: its length clamping (\<open>ToLength\<close>),
    its array creation (\<open>ArrayCreate\<close>, whose length is an unsigned 32-bit integer,
    \<open>ToUint32\<close>, a \<open>32 word\<close>; the \<^verbatim>\<open>RangeError\<close>), its counting loop
    (\<open>from_loop\<close>, which stores into the array by index, \<open>js_store\<close>) and its final
    assignment to the length of the array (\<open>ArraySetLength\<close>); and \<open>js_index\<close>, the
    read \<^verbatim>\<open>xs[i]\<close> that the callback of the source performs. The loop is given as a
    recursive function with a termination proof (the measure is the distance of the
    index from the length), and as a transition system on its states (\<open>from_reach\<close>);
    \<open>from_reach_exit\<close> connects the two. The theorems prove the loop equal to a \<open>map\<close>
    over the indices (\<open>from_spec\<close>), characterise the reachable states, show that
    every store is in range, and characterise when \<open>Array_from\<close> throws and how long
    the result is.
  \<^descr>[\<open>JS_Array_Abrupt\<close>] The same operation with a callback that may throw, as the
    callback of the source can when the binding it reads is not initialised. The loop
    is a \<open>while_option\<close> over its states (\<open>from_while\<close>), \<open>Array_fromE\<close> is
    \<^verbatim>\<open>Array.from\<close> over it, and the reference is \<open>from_specE\<close>. The theorems show that
    the loop stops and that the error is that of the first throwing call; a lemma shows
    that with a callback that never throws \<open>Array_fromE\<close> is \<open>Array_from\<close>.
  \<^descr>[\<open>Default_Channels\<close>] The values of \<^verbatim>\<open>defaultChannels.js\<close>: \<open>sampleVideos\<close>, the
    callback \<open>channelUrlAt\<close> and the exported \<open>defaultChannelUrls\<close>, each a direct
    translation, and \<open>channelUrls\<close>, the same expression with the seed array and the
    length as parameters. The code is the instance \<open>channelUrls sampleVideos 10\<close>; the
    parameters are the generalisation that section 9 of the specification proposes.
    The contract is \<open>channel_list\<close> with the data invariant \<open>ChannelList_inv\<close>. The
    theorems give the exported value, the refinement of the contract for all seeds and
    lengths, the invariant, the absence of \<^verbatim>\<open>undefined\<close> entries, the boundary cases
    (no seeds, more seeds than entries), the number of assigned channels, and the seeds
    read back from the list.
  \<^descr>[\<open>ES_Module\<close>] Import declarations, shared by the two modules that have them:
    what a declaration binds (\<open>binding_of\<close>, \<open>scope_of\<close>, \<open>resolve\<close>), the modules
    the declarations request, in source order (\<open>requested_modules\<close>), and the early
    error of a name bound twice (\<open>link\<close>).
  \<^descr>[\<open>Channels_Module\<close>] \<^verbatim>\<open>defaultChannels.js\<close> as a module: its two declarations
    (\<open>defaultChannels_js\<close>) evaluated in order in an environment (\<open>eval_decls\<close>,
    \<open>eval_module\<close>), the callback reading the binding of the array from the environment
    (\<open>channelUrlAt_in\<close>), and the exported bindings (\<open>module_exports\<close>). The theorems
    show that the module evaluates to the values of \<open>Default_Channels\<close>, what it
    exports, and what happens when the two declarations are swapped.
  \<^descr>[\<open>JS_Expr\<close>] The expressions and statements of \<^verbatim>\<open>main.js\<close> and
    \<^verbatim>\<open>vite.config.js\<close> (\<open>expr\<close>, \<open>stmt\<close>, \<open>js_module\<close>), symbolic values for what
    comes from imported modules (\<open>sval\<close>), the evaluation of an expression in the
    order of ECMA-262 with the calls it makes recorded (\<open>eval_expr\<close>), and the
    evaluation of a module (\<open>run_module\<close>): linking, requesting the imported modules,
    then the statements.
  \<^descr>[\<open>Bootstrap\<close>] \<^verbatim>\<open>main.js\<close> as it is written (\<open>main_js\<close>). The theorems give its
    evaluation (the modules requested and the three calls, in order), its scope, and
    what the module has done by the time it throws when one of its imports is missing.
  \<^descr>[\<open>Vite_Config\<close>] \<^verbatim>\<open>vite.config.js\<close> as it is written (\<open>vite_config_js\<close>). The
    theorem gives its evaluation: the modules requested, the two calls, and the default
    export.
  \<^descr>[\<open>Spec2Isabelle\<close>] This theory: the documentation of the development.

  \<^bold>\<open>How the model reads the code.\<close>
  A module-level constant is a \<open>definition\<close>. The arrow function of
  \<^verbatim>\<open>defaultChannels.js\<close> takes the array it closes over as an argument in
  \<open>Default_Channels\<close> and reads it from the environment in \<open>Channels_Module\<close>; the
  theorems of \<open>Channels_Module\<close> connect the two. A JavaScript array is a list of
  values; a read outside the array yields \<open>Undefined\<close>, as in JavaScript, and never
  HOL's unspecified \<open>xs ! i\<close>. A store into an array is \<open>js_store\<close>, which extends
  the array outside its range as JavaScript does, where the list update \<open>A[k := v]\<close>
  would leave the list unchanged; the safety theorem of \<open>JS_Array\<close> shows that the
  loop never stores outside the range. Lengths are \<open>int\<close> where the source writes a
  number and \<open>nat\<close> after \<open>ToLength\<close>; the array constructor's length is a
  \<open>32 word\<close>, and the error is raised where the conversion to it wraps around; the
  bounds \<open>2\<^sup>3\<^sup>2 - 1\<close> and \<open>2\<^sup>5\<^sup>3 - 1\<close> are numerals. A throw is the left injection of a
  sum. An import declaration is a clause and a module specifier, and an identifier is
  bound to the pair of a module specifier and an export name. The statement of
  \<^verbatim>\<open>main.js\<close> and the default export of \<^verbatim>\<open>vite.config.js\<close> are syntax trees with the
  shape of the source text, and their values are the calls they make, as terms. All
  definitions are executable, and closed instances are evaluated by the simplifier.

  \<^bold>\<open>Loops and bounds.\<close> The only loop is the one inside \<^verbatim>\<open>Array.from\<close>. As
  \<open>from_loop\<close> it is defined with \<open>function\<close> and its termination is proved. As
  \<open>from_while\<close> it is a \<open>while_option\<close>, whose result \<open>None\<close> would be a loop that does
  not stop: \<open>Array_fromE\<close> and the evaluation of \<open>Channels_Module\<close> carry this option,
  and the termination theorem shows that the result of \<open>Array_fromE\<close> is never
  \<open>None\<close>. No fuel is used. The length the loop runs to is at most \<open>2\<^sup>3\<^sup>2 - 1\<close>, beyond
  which the array cannot be created and \<^verbatim>\<open>Array.from\<close> returns the error. The
  evaluation of expressions is structural recursion on the syntax.

  \<^bold>\<open>What is not modelled.\<close> The framework and the widget library: what
  \<^verbatim>\<open>createApp\<close>, \<^verbatim>\<open>use\<close> and \<^verbatim>\<open>mount\<close> do is outside the sources, so the model
  does not say what they return, whether \<^verbatim>\<open>use\<close> returns the application, or what is
  rendered; it says which calls are made. The same holds for the build tool and the
  plugin factory. The stylesheets, the root component \<^verbatim>\<open>App.vue\<close> and video playback:
  they are not among the sources. What the imported modules export, and whether a
  module specifier resolves: an import binding is the pair of a module specifier and an
  export name. Property lookup on a value: the result of a method call is symbolic
  whatever the receiver is. Of \<^verbatim>\<open>Array.from\<close> the iterator branch and the test that the
  callback is callable: the text of the call decides them, an object literal has no
  iterator and an arrow function is callable. Numbers are integers: a \<^verbatim>\<open>length\<close> that
  is not an integer does not occur in the sources. Of an array only the entries and the
  length are modelled: a store at an index of \<open>2\<^sup>3\<^sup>2 - 1\<close> or more, which in JavaScript
  sets an ordinary property, leaves the model's array as it is, and a slot that was
  never stored reads \<^verbatim>\<open>undefined\<close> like a slot that holds \<^verbatim>\<open>undefined\<close>.

  That a call of the generator yields the same list every time is not a theorem: the
  generator is a HOL function and has no state to depend on. That a consumer does not
  change the exported array is not a theorem either: the array is not frozen, no line
  of the sources assigns to it, and its only consumer is outside the sources.

  \<^bold>\<open>Plan.\<close> Every line of the three sources is translated. Nothing more of the
  program can be modelled from the sources: what remains is the root component and its
  use of the channel list, the framework and the build tool.
\<close>

end
